theory Spec2Isabelle
  imports Main "HOL-Library.Word"
begin

unbundle bit_operations_syntax

section \<open>JavaScript values used by the sources\<close>

text \<open>
  Strings are modelled as Isabelle strings holding ASCII text (the decoder's output and
  every literal of the sources is ASCII). BigInt values are \<open>int\<close>: both are unbounded
  two's complement integers, so \<open>&\<close>, \<open>|\<close>, \<open>~\<close>, \<open><<\<close> and \<open>>>\<close> are \<open>AND\<close>, \<open>OR\<close>,
  \<open>NOT\<close>, \<open>push_bit\<close> and \<open>drop_bit\<close>. Exceptions are values of \<open>js_error\<close>.
\<close>

datatype js_error = RangeError | SyntaxError | Error string

text \<open>\<open>String.prototype.toLowerCase\<close> on ASCII text.\<close>

definition lower_char :: "char \<Rightarrow> char" where
  "lower_char c =
     (case map_of (zip ''ABCDEFGHIJKLMNOPQRSTUVWXYZ'' ''abcdefghijklmnopqrstuvwxyz'') c of
        Some l \<Rightarrow> l
      | None \<Rightarrow> c)"

definition toLowerCase :: "string \<Rightarrow> string" where
  "toLowerCase s = map lower_char s"

section \<open>Strings and numbers\<close>

text \<open>White space of \<open>trim\<close> and of the regular expressions' \<open>\s\<close>, on ASCII text.\<close>

definition is_space :: "char \<Rightarrow> bool" where
  "is_space c = (c \<in> set [CHR 0x09, CHR 0x0A, CHR 0x0B, CHR 0x0C, CHR 0x0D, CHR 0x20])"

definition trim :: "string \<Rightarrow> string" where
  "trim s = rev (dropWhile is_space (rev (dropWhile is_space s)))"

definition startsWith :: "string \<Rightarrow> string \<Rightarrow> bool" where
  "startsWith s p = (take (length p) s = p)"

definition endsWith :: "string \<Rightarrow> string \<Rightarrow> bool" where
  "endsWith s p = (length p \<le> length s \<and> drop (length s - length p) s = p)"

definition padStart :: "nat \<Rightarrow> char \<Rightarrow> string \<Rightarrow> string" where
  "padStart n c s = replicate (n - length s) c @ s"

text \<open>\<open>Array.prototype.join\<close>.\<close>

fun join :: "string \<Rightarrow> string list \<Rightarrow> string" where
  "join sep [] = []"
| "join sep [x] = x"
| "join sep (x # y # ys) = x @ sep @ join sep (y # ys)"

text \<open>\<open>toString(16)\<close> and \<open>toString()\<close> of a non-negative integer.\<close>

fun toString16 :: "nat \<Rightarrow> string" where
  "toString16 n =
     (if n < 16 then [''0123456789abcdef'' ! n]
      else toString16 (n div 16) @ [''0123456789abcdef'' ! (n mod 16)])"

declare toString16.simps [simp del]

fun toString10 :: "nat \<Rightarrow> string" where
  "toString10 n =
     (if n < 10 then [''0123456789'' ! n]
      else toString10 (n div 10) @ [''0123456789'' ! (n mod 10)])"

declare toString10.simps [simp del]

text \<open>The value of a hexadecimal digit, in either case (the class \<open>[0-9a-fA-F]\<close>).\<close>

definition digit_val :: "char \<Rightarrow> nat option" where
  "digit_val c =
     map_of [(CHR ''0'', 0), (CHR ''1'', 1), (CHR ''2'', 2), (CHR ''3'', 3), (CHR ''4'', 4),
       (CHR ''5'', 5), (CHR ''6'', 6), (CHR ''7'', 7), (CHR ''8'', 8), (CHR ''9'', 9),
       (CHR ''a'', 10), (CHR ''b'', 11), (CHR ''c'', 12), (CHR ''d'', 13), (CHR ''e'', 14),
       (CHR ''f'', 15), (CHR ''A'', 10), (CHR ''B'', 11), (CHR ''C'', 12), (CHR ''D'', 13),
       (CHR ''E'', 14), (CHR ''F'', 15)] c"

definition is_hex :: "char \<Rightarrow> bool" where
  "is_hex c = (digit_val c \<noteq> None)"

definition is_hex_lower :: "char \<Rightarrow> bool" where
  "is_hex_lower c = (c \<in> set ''0123456789abcdef'')"

definition is_digit :: "char \<Rightarrow> bool" where
  "is_digit c = (c \<in> set ''0123456789'')"

text \<open>The integer a string of digits denotes in a radix (applied to strings of digits only).\<close>

definition digits_value :: "nat \<Rightarrow> string \<Rightarrow> nat" where
  "digits_value radix s =
     fold (\<lambda>c n. n * radix + (case digit_val c of Some d \<Rightarrow> d | None \<Rightarrow> 0)) s 0"

text \<open>
  A JavaScript Number holding a non-negative integer is a \<open>nat\<close>. \<open>fl n\<close> is the double
  nearest to \<open>n\<close> (ties to even): the value a Number has after an arithmetic operation whose
  exact result is \<open>n\<close>. Below \<open>2^53\<close> it is \<open>n\<close> itself.
\<close>

fun bitlen :: "nat \<Rightarrow> nat" where
  "bitlen n = (if n = 0 then 0 else Suc (bitlen (n div 2)))"

declare bitlen.simps [simp del]

definition fl :: "nat \<Rightarrow> nat" where
  "fl n =
     (if n < 2 ^ 53 then n
      else (let e = bitlen n - 53; q = n div 2 ^ e; r = n mod 2 ^ e; h = 2 ^ (e - 1)
            in (if r < h \<or> (r = h \<and> even q) then q else q + 1) * 2 ^ e))"

text \<open>
  \<open>parseInt(s, 16)\<close>: leading white space, a sign, an optional \<open>0x\<close>, then the longest run
  of hexadecimal digits. \<open>None\<close> is \<open>NaN\<close> (no digit) or an infinity (a value beyond the
  doubles); \<open>BigInt\<close> throws a \<open>RangeError\<close> on both.
\<close>

definition parseInt16 :: "string \<Rightarrow> int option" where
  "parseInt16 s0 =
     (let s1 = dropWhile is_space s0;
          neg = startsWith s1 ''-'';
          s2 = (if startsWith s1 ''-'' \<or> startsWith s1 ''+'' then drop 1 s1 else s1);
          s3 = (if startsWith s2 ''0x'' \<or> startsWith s2 ''0X'' then drop 2 s2 else s2);
          z = takeWhile is_hex s3
      in if z = [] then None
         else (let v = fl (digits_value 16 z)
               in if 2 ^ 1024 \<le> v then None else Some (if neg then - int v else int v)))"

section \<open>The instruction record\<close>

record inst =
  address :: string
  bytes :: string
  mnemonic :: string
  operands :: string

section \<open>Xref builder (xrefAnalyzer.js)\<close>

definition CALL_SET :: "string list" where
  "CALL_SET = [''call'']"

definition JMP_SET :: "string list" where
  "JMP_SET = [''jmp'']"

definition JCC_SET :: "string list" where
  "JCC_SET = [''jo'', ''jno'', ''js'', ''jns'', ''je'', ''jne'', ''jz'', ''jnz'',
     ''jb'', ''jnae'', ''jc'', ''jnb'', ''jae'', ''jnc'', ''jbe'', ''jna'',
     ''ja'', ''jnbe'', ''jl'', ''jnge'', ''jge'', ''jnl'', ''jle'', ''jng'',
     ''jg'', ''jnle'', ''jp'', ''jpe'', ''jnp'', ''jpo'',
     ''jcxz'', ''jecxz'', ''jrcxz'', ''loop'', ''loope'', ''loopne'']"

text \<open>
  The two regular expressions of \<open>parseTarget\<close>, both with the \<open>i\<close> flag:
  \<open>/^([0-9a-fA-F]+)h$/i\<close> gives its group, \<open>/^(0x[0-9a-fA-F]+)$/i\<close> the digits after
  the prefix.
\<close>

definition match_hexH :: "string \<Rightarrow> string option" where
  "match_hexH s =
     (if s \<noteq> [] \<and> (last s = CHR ''h'' \<or> last s = CHR ''H'') \<and> butlast s \<noteq> []
         \<and> list_all is_hex (butlast s)
      then Some (butlast s) else None)"

definition match_hex0x :: "string \<Rightarrow> string option" where
  "match_hex0x s =
     (if (startsWith s ''0x'' \<or> startsWith s ''0X'') \<and> drop 2 s \<noteq> [] \<and> list_all is_hex (drop 2 s)
      then Some (drop 2 s) else None)"

definition parseTarget :: "string \<Rightarrow> nat \<Rightarrow> string option" where
  "parseTarget ops bits =
     (if ops = [] then None
      else (let pad = (if bits = 64 then 16 else 8) in
        case match_hexH ops of
          Some h \<Rightarrow> Some (''0x'' @ padStart pad CHR ''0'' (toString16 (digits_value 16 h)))
        | None \<Rightarrow>
            (case match_hex0x ops of
               Some h \<Rightarrow> Some (''0x'' @ padStart pad CHR ''0'' (toString16 (digits_value 16 h)))
             | None \<Rightarrow> None)))"

record xref =
  xref_from :: string
  xref_type :: string

text \<open>
  The \<open>xrefs\<close> object, as its keys in insertion order (a key is \<open>0x\<close> and digits, never an
  array index) with their arrays.
\<close>

type_synonym xrefs = "(string \<times> xref list) list"

fun xrefs_push :: "xrefs \<Rightarrow> string \<Rightarrow> xref \<Rightarrow> xrefs" where
  "xrefs_push [] k x = [(k, [x])]"
| "xrefs_push ((k', xs) # rest) k x =
     (if k' = k then (k', xs @ [x]) # rest else (k', xs) # xrefs_push rest k x)"

definition xref_step :: "nat \<Rightarrow> inst \<Rightarrow> xrefs \<Rightarrow> xrefs" where
  "xref_step bits i xrefs =
     (let mnem = trim (toLowerCase (mnemonic i));
          type = (if mnem \<in> set CALL_SET then Some ''call''
                  else if mnem \<in> set JMP_SET then Some ''jmp''
                  else if mnem \<in> set JCC_SET then Some ''jcc''
                  else None)
      in case type of
           None \<Rightarrow> xrefs
         | Some ty \<Rightarrow>
             (case parseTarget (trim (operands i)) bits of
                None \<Rightarrow> xrefs
              | Some target \<Rightarrow> xrefs_push xrefs target \<lparr>xref_from = address i, xref_type = ty\<rparr>))"

definition buildXrefs :: "inst list \<Rightarrow> nat \<Rightarrow> xrefs" where
  "buildXrefs instructions bits = fold (xref_step bits) instructions []"

section \<open>Function detection and byte signatures (signatures.js)\<close>

definition END_MNEMS :: "string list" where
  "END_MNEMS = [''ret'', ''retn'', ''retq'', ''retf'', ''ud2'', ''hlt'']"

text \<open>\<open>address.replace(/^0x0*/, '') || '0'\<close>\<close>

definition short_address :: "string \<Rightarrow> string" where
  "short_address a =
     (let s = (if startsWith a ''0x'' then dropWhile (\<lambda>c. c = CHR ''0'') (drop 2 a) else a)
      in if s = [] then ''0'' else s)"

text \<open>
  The \<open>Map\<close> of \<open>detectFunctions\<close>, as its entries in insertion order (also the order
  of the object \<open>Object.fromEntries\<close> makes of it: a key is never an array index).
\<close>

fun map_set :: "(string \<times> string) list \<Rightarrow> string \<Rightarrow> string \<Rightarrow> (string \<times> string) list" where
  "map_set [] k v = [(k, v)]"
| "map_set ((k', v') # rest) k v =
     (if k' = k then (k', v) # rest else (k', v') # map_set rest k v)"

definition detect_step ::
  "inst \<Rightarrow> (string \<times> string) list \<times> bool \<Rightarrow> (string \<times> string) list \<times> bool" where
  "detect_step i st =
     (let (funcs, atBoundary) = st;
          mnem = trim (toLowerCase (mnemonic i));
          (funcs1, atBoundary1) =
             (if atBoundary \<and> mnem \<noteq> ''int3''
              then (map_set funcs (address i) (''sub_'' @ short_address (address i)), False)
              else (funcs, atBoundary))
      in if mnem \<in> set END_MNEMS \<or> mnem = ''int3'' then (funcs1, True)
         else (funcs1, atBoundary1))"

definition detectFunctions :: "inst list \<Rightarrow> (string \<times> string) list" where
  "detectFunctions instructions = fst (fold detect_step instructions ([], True))"

record byte_sig =
  sig_bytes :: "8 word list"
  sig_name :: string
  sig_note :: string

definition BYTE_SIGS :: "byte_sig list" where
  "BYTE_SIGS =
     [\<lparr>sig_bytes = [0xf3, 0xaa], sig_name = ''rep stosb'', sig_note = ''byte memset''\<rparr>,
      \<lparr>sig_bytes = [0xf3, 0xab], sig_name = ''rep stosd'', sig_note = ''dword memset''\<rparr>,
      \<lparr>sig_bytes = [0xf3, 0xa4], sig_name = ''rep movsb'', sig_note = ''byte memcpy''\<rparr>,
      \<lparr>sig_bytes = [0xf3, 0xa5], sig_name = ''rep movsd'', sig_note = ''dword memcpy''\<rparr>,
      \<lparr>sig_bytes = [0x0f, 0x05], sig_name = ''syscall'', sig_note = ''Linux syscall''\<rparr>,
      \<lparr>sig_bytes = [0xcd, 0x80], sig_name = ''int 80h'', sig_note = ''Linux int 0x80''\<rparr>,
      \<lparr>sig_bytes = [0xff, 0x25], sig_name = ''jmp [IAT]'', sig_note = ''Indirect jump (import)''\<rparr>,
      \<lparr>sig_bytes = [0xff, 0x15], sig_name = ''call [IAT]'', sig_note = ''Indirect call (import)''\<rparr>]"

record sig_hit =
  hit_address :: string
  hit_name :: string
  hit_note :: string

text \<open>
  The inner \<open>for\<close> loop of \<open>matchByteSignatures\<close> for one signature, from index \<open>i\<close>, with
  the \<open>results\<close> array so far. The loop condition \<open>i < limit - sig.bytes.length\<close> is written
  without the subtraction. After a match the loop goes on at \<open>i + sig.bytes.length\<close>; with
  an empty signature that is \<open>i\<close> again and the loop never ends (\<open>None\<close>).
\<close>

function scan_sig ::
  "8 word list \<Rightarrow> nat \<Rightarrow> nat \<Rightarrow> nat \<Rightarrow> byte_sig \<Rightarrow> nat \<Rightarrow> sig_hit list \<Rightarrow> sig_hit list option" where
  "scan_sig codeBuffer baseVA pad limit sig i results =
     (if i + length (sig_bytes sig) < limit then
        (if list_all (\<lambda>j. codeBuffer ! (i + j) = sig_bytes sig ! j) [0..<length (sig_bytes sig)]
         then (if length (sig_bytes sig) = 0 then None
               else scan_sig codeBuffer baseVA pad limit sig (i + length (sig_bytes sig))
                      (results @ [\<lparr>hit_address = ''0x'' @ padStart pad CHR ''0'' (toString16 (fl (baseVA + i))),
                                   hit_name = sig_name sig, hit_note = sig_note sig\<rparr>]))
         else scan_sig codeBuffer baseVA pad limit sig (i + 1) results)
      else Some results)"
  by pat_completeness auto
termination
  by (relation "measure (\<lambda>(codeBuffer, baseVA, pad, limit, sig, i, results). limit - i)")
    (auto simp add: neq_Nil_conv)

declare scan_sig.simps [simp del]

definition matchByteSignatures :: "8 word list \<Rightarrow> nat \<Rightarrow> nat \<Rightarrow> sig_hit list option" where
  "matchByteSignatures codeBuffer baseVA bits =
     (let pad = (if bits = 64 then 16 else 8);
          limit = min (length codeBuffer) (1024 * 1024)
      in fold (\<lambda>sig results. Option.bind results (scan_sig codeBuffer baseVA pad limit sig 0))
           BYTE_SIGS (Some []))"

section \<open>CFG builder (graph.js)\<close>

definition JMP_END :: "string list" where
  "JMP_END = [''jmp'', ''ret'', ''retn'', ''retq'', ''retf'', ''ud2'', ''hlt'']"

definition JCC_ALL :: "string list" where
  "JCC_ALL = [''je'', ''jne'', ''jz'', ''jnz'', ''jg'', ''jge'', ''jl'', ''jle'', ''ja'', ''jae'',
     ''jb'', ''jbe'', ''jp'', ''jnp'', ''jo'', ''jno'', ''js'', ''jns'', ''jcxz'', ''jecxz'', ''jrcxz'']"

text \<open>\<open>parseTarget\<close> of graph.js (it trims the operand itself).\<close>

definition graph_parseTarget :: "string \<Rightarrow> nat \<Rightarrow> string option" where
  "graph_parseTarget op bits =
     (if op = [] then None
      else (let pad = (if bits = 64 then 16 else 8) in
        case match_hexH (trim op) of
          Some h \<Rightarrow> Some (''0x'' @ padStart pad CHR ''0'' (toString16 (digits_value 16 h)))
        | None \<Rightarrow>
            (case match_hex0x (trim op) of
               Some h \<Rightarrow> Some (''0x'' @ padStart pad CHR ''0'' (toString16 (digits_value 16 h)))
             | None \<Rightarrow> None)))"

record edge =
  edge_to :: string
  edge_type :: string

record block =
  block_id :: string
  block_insts :: "inst list"
  block_succs :: "edge list"

text \<open>Step 1: the set \<open>starts\<close>; \<open>mark_starts\<close> is the body of its loop for index \<open>i\<close>.\<close>

definition mark_starts :: "nat \<Rightarrow> inst list \<Rightarrow> nat \<Rightarrow> string set \<Rightarrow> string set" where
  "mark_starts bits instructions i starts =
     (let m = trim (toLowerCase (mnemonic (instructions ! i))) in
      if m \<in> set JMP_END \<or> m \<in> set JCC_ALL \<or> m = ''call'' then
        (let starts1 = (if i + 1 < length instructions
                        then insert (address (instructions ! (i + 1))) starts else starts)
         in case graph_parseTarget (operands (instructions ! i)) bits of
              Some t \<Rightarrow> insert t starts1
            | None \<Rightarrow> starts1)
      else starts)"

definition block_starts :: "inst list \<Rightarrow> nat \<Rightarrow> string set" where
  "block_starts instructions bits =
     fold (mark_starts bits instructions) [0..<length instructions]
       {address (instructions ! 0)}"

text \<open>Step 2: the blocks; the state is the array \<open>blocks\<close> and the open block \<open>cur\<close>.\<close>

definition add_inst :: "string set \<Rightarrow> inst \<Rightarrow> block list \<times> block option \<Rightarrow> block list \<times> block option" where
  "add_inst starts i st =
     (let (blocks, cur) = st in
      if address i \<in> starts then
        ((case cur of Some c \<Rightarrow> blocks @ [c] | None \<Rightarrow> blocks),
         Some \<lparr>block_id = address i, block_insts = [i], block_succs = []\<rparr>)
      else (case cur of
              Some c \<Rightarrow> (blocks, Some (c\<lparr>block_insts := block_insts c @ [i]\<rparr>))
            | None \<Rightarrow> (blocks, None)))"

definition build_blocks :: "string set \<Rightarrow> inst list \<Rightarrow> block list" where
  "build_blocks starts instructions =
     (let (blocks, cur) = fold (add_inst starts) instructions ([], None)
      in case cur of Some c \<Rightarrow> blocks @ [c] | None \<Rightarrow> blocks)"

text \<open>\<open>instructions.findIndex(i => i.address === a)\<close>, \<open>None\<close> for -1.\<close>

fun findIndex_address :: "inst list \<Rightarrow> string \<Rightarrow> nat option" where
  "findIndex_address [] a = None"
| "findIndex_address (i # is) a =
     (if address i = a then Some 0 else map_option Suc (findIndex_address is a))"

text \<open>
  \<open>instructions[li + 1]\<close> for \<open>li = findIndex(...)\<close>: the element after the one found, the
  first element when nothing is found (\<open>li = -1\<close>), \<open>None\<close> past the end.
\<close>

definition inst_after :: "inst list \<Rightarrow> string \<Rightarrow> inst option" where
  "inst_after instructions a =
     (let k = (case findIndex_address instructions a of Some li \<Rightarrow> li + 1 | None \<Rightarrow> 0)
      in if k < length instructions then Some (instructions ! k) else None)"

text \<open>Step 3: the edges of one block; \<open>ids\<close> are the keys of \<open>bmap\<close>.\<close>

definition block_edges :: "inst list \<Rightarrow> nat \<Rightarrow> string set \<Rightarrow> block \<Rightarrow> block" where
  "block_edges instructions bits ids b =
     (let lst = last (block_insts b);
          m = trim (toLowerCase (mnemonic lst));
          nextAddr = map_option address (inst_after instructions (address lst));
          fall = (case nextAddr of
                    Some n \<Rightarrow> if n \<noteq> [] \<and> n \<in> ids then [\<lparr>edge_to = n, edge_type = ''fall''\<rparr>] else []
                  | None \<Rightarrow> []);
          jump = (case graph_parseTarget (operands lst) bits of
                    Some t \<Rightarrow> if t \<in> ids then [\<lparr>edge_to = t, edge_type = ''jump''\<rparr>] else []
                  | None \<Rightarrow> [])
      in if m \<in> set JCC_ALL then b\<lparr>block_succs := block_succs b @ fall @ jump\<rparr>
         else if m = ''jmp'' then b\<lparr>block_succs := block_succs b @ jump\<rparr>
         else if m \<notin> set JMP_END then b\<lparr>block_succs := block_succs b @ fall\<rparr>
         else b)"

text \<open>\<open>buildCFG\<close> returns the blocks; its \<open>blockMap\<close> is the blocks keyed by their ids.\<close>

definition buildCFG :: "inst list \<Rightarrow> nat \<Rightarrow> block list" where
  "buildCFG instructions bits =
     (if instructions = [] then []
      else (let blocks = build_blocks (block_starts instructions bits) instructions
            in map (block_edges instructions bits (set (map block_id blocks))) blocks))"

section \<open>Buffers\<close>

text \<open>
  A Node \<open>Buffer\<close> is a list of bytes. The \<open>readUInt...\<close> methods throw a \<open>RangeError\<close>
  when the bytes they read are not all inside the buffer.
\<close>

type_synonym buffer = "8 word list"

definition bindE :: "'e + 'a \<Rightarrow> ('a \<Rightarrow> 'e + 'b) \<Rightarrow> 'e + 'b" where
  "bindE m f = (case m of Inl e \<Rightarrow> Inl e | Inr v \<Rightarrow> f v)"

definition readUInt16LE :: "buffer \<Rightarrow> nat \<Rightarrow> js_error + nat" where
  "readUInt16LE buf off =
     (if off + 2 \<le> length buf
      then Inr (unat (buf ! off) + 2 ^ 8 * unat (buf ! (off + 1)))
      else Inl RangeError)"

definition readUInt16BE :: "buffer \<Rightarrow> nat \<Rightarrow> js_error + nat" where
  "readUInt16BE buf off =
     (if off + 2 \<le> length buf
      then Inr (2 ^ 8 * unat (buf ! off) + unat (buf ! (off + 1)))
      else Inl RangeError)"

definition readUInt32LE :: "buffer \<Rightarrow> nat \<Rightarrow> js_error + nat" where
  "readUInt32LE buf off =
     (if off + 4 \<le> length buf
      then Inr (unat (buf ! off) + 2 ^ 8 * unat (buf ! (off + 1))
                + 2 ^ 16 * unat (buf ! (off + 2)) + 2 ^ 24 * unat (buf ! (off + 3)))
      else Inl RangeError)"

definition readUInt32BE :: "buffer \<Rightarrow> nat \<Rightarrow> js_error + nat" where
  "readUInt32BE buf off =
     (if off + 4 \<le> length buf
      then Inr (2 ^ 24 * unat (buf ! off) + 2 ^ 16 * unat (buf ! (off + 1))
                + 2 ^ 8 * unat (buf ! (off + 2)) + unat (buf ! (off + 3)))
      else Inl RangeError)"

text \<open>\<open>Number(buffer.readBigUInt64LE(off))\<close>\<close>

definition readBigUInt64LE :: "buffer \<Rightarrow> nat \<Rightarrow> js_error + nat" where
  "readBigUInt64LE buf off =
     (if off + 8 \<le> length buf
      then Inr (fl (fold (\<lambda>k v. v + 2 ^ (8 * k) * unat (buf ! (off + k))) [0..<8] 0))
      else Inl RangeError)"

text \<open>\<open>buffer.slice(a, b)\<close> for \<open>0 \<le> a\<close> and \<open>0 \<le> b\<close>.\<close>

definition slice :: "buffer \<Rightarrow> nat \<Rightarrow> nat \<Rightarrow> buffer" where
  "slice buf a b = take (b - a) (drop a buf)"

text \<open>\<open>toString('ascii')\<close>: the top bit of each byte is cleared.\<close>

definition ascii_string :: "buffer \<Rightarrow> string" where
  "ascii_string buf = map (\<lambda>b. char_of (unat b mod 128)) buf"

section \<open>The section record and the parsers' result\<close>

text \<open>
  \<open>typeStr\<close> is set by the ELF parser only. Fields of the parsers' results that only feed
  the display (entry point, image base, subsystem, time stamp, \<open>info\<close>) are left out of
  \<open>parsed\<close>; the reads that compute them are kept, since they can throw.
\<close>

record section_record =
  sec_name :: string
  virtualAddress :: nat
  virtualSize :: nat
  rawOffset :: nat
  rawSize :: nat
  sec_flags :: nat
  flagsStr :: string
  typeStr :: "string option"
  isCode :: bool

record parsed =
  p_format :: string
  p_type :: string
  p_arch :: string
  p_bits :: nat
  p_sections :: "section_record list"
  p_numSections :: nat
  p_summary :: string

section \<open>PE parser (peParser.js)\<close>

definition MACHINE_TYPES :: "(nat \<times> string \<times> nat) list" where
  "MACHINE_TYPES =
     [(0x014c, ''x86'', 32), (0x8664, ''AMD64'', 64), (0xaa64, ''ARM64'', 64),
      (0x01c0, ''ARM'', 32), (0x0200, ''IA64'', 64), (0x01c4, ''ARMv7'', 32),
      (0x0166, ''MIPS16'', 32)]"

text \<open>\<open>Object.entries(SECTION_FLAGS)\<close>: integer keys come in ascending order.\<close>

definition SECTION_FLAGS :: "(nat \<times> string) list" where
  "SECTION_FLAGS =
     [(0x00000020, ''CODE''), (0x00000040, ''INIT_DATA''), (0x00000080, ''UNINIT_DATA''),
      (0x20000000, ''EXEC''), (0x40000000, ''READ''), (0x80000000, ''WRITE'')]"

definition parseSectionFlags :: "nat \<Rightarrow> string" where
  "parseSectionFlags fl_bits =
     (let s = join ''|'' (map snd (filter (\<lambda>e. fl_bits AND fst e \<noteq> 0) SECTION_FLAGS))
      in if s = [] then ''0x'' @ toString16 fl_bits else s)"

text \<open>The body of the section loop for the entry at \<open>off\<close> (all its reads are in range).\<close>

definition pe_section :: "buffer \<Rightarrow> nat \<Rightarrow> js_error + section_record" where
  "pe_section buf off =
     (let nm = rev (dropWhile (\<lambda>c. c = CHR 0x00) (rev (ascii_string (slice buf off (off + 8))))) in
      bindE (readUInt32LE buf (off + 8)) (\<lambda>vsize.
      bindE (readUInt32LE buf (off + 12)) (\<lambda>vaddr.
      bindE (readUInt32LE buf (off + 16)) (\<lambda>sizeOfRawData.
      bindE (readUInt32LE buf (off + 20)) (\<lambda>pointerToRawData.
      bindE (readUInt32LE buf (off + 36)) (\<lambda>fl_bits.
        Inr \<lparr>sec_name = nm, virtualAddress = vaddr, virtualSize = vsize,
             rawOffset = pointerToRawData, rawSize = sizeOfRawData, sec_flags = fl_bits,
             flagsStr = parseSectionFlags fl_bits, typeStr = None,
             isCode = (fl_bits AND 0x20000020 \<noteq> 0)\<rparr>))))))"

text \<open>The section loop, over the indices \<open>i\<close> still to visit; \<open>break\<close> ends it.\<close>

fun pe_sections :: "buffer \<Rightarrow> nat \<Rightarrow> nat list \<Rightarrow> js_error + section_record list" where
  "pe_sections buf sectionTableBase [] = Inr []"
| "pe_sections buf sectionTableBase (i # is) =
     (let off = sectionTableBase + i * 40 in
      if off + 40 > length buf then Inr []
      else bindE (pe_section buf off) (\<lambda>s.
           bindE (pe_sections buf sectionTableBase is) (\<lambda>rest. Inr (s # rest))))"

definition parsePE :: "buffer \<Rightarrow> js_error + parsed" where
  "parsePE buf =
     (if length buf < 0x40 then Inl (Error ''File too small to be a PE'') else
      bindE (readUInt16LE buf 0) (\<lambda>e_magic.
      if e_magic \<noteq> 0x5a4d then Inl (Error ''Not a PE file (no MZ signature)'') else
      bindE (readUInt32LE buf 0x3c) (\<lambda>e_lfanew.
      if e_lfanew + 24 > length buf then Inl (Error ''Invalid PE header offset'') else
      bindE (readUInt32LE buf e_lfanew) (\<lambda>peSig.
      if peSig \<noteq> 0x00004550 then Inl (Error ''Invalid PE signature'') else
      (let coffBase = e_lfanew + 4 in
      bindE (readUInt16LE buf coffBase) (\<lambda>machine.
      bindE (readUInt16LE buf (coffBase + 2)) (\<lambda>numSections.
      bindE (readUInt32LE buf (coffBase + 4)) (\<lambda>timestamp.
      bindE (readUInt16LE buf (coffBase + 16)) (\<lambda>sizeOfOptHeader.
      bindE (readUInt16LE buf (coffBase + 18)) (\<lambda>characteristics.
      (let arch = (case map_of MACHINE_TYPES machine of
                     Some a \<Rightarrow> a
                   | None \<Rightarrow> (''0x'' @ toString16 machine, 32));
           optBase = coffBase + 20 in
      bindE (readUInt16LE buf optBase) (\<lambda>magic.
      (let isPE32Plus = (magic = 0x20b) in
      bindE (readUInt32LE buf (optBase + 16)) (\<lambda>entryPoint.
      bindE (readUInt32LE buf (optBase + 20)) (\<lambda>baseOfCode.
      bindE (if isPE32Plus then readBigUInt64LE buf (optBase + 24)
             else readUInt32LE buf (optBase + 28)) (\<lambda>imageBase.
      bindE (readUInt16LE buf (optBase + 68)) (\<lambda>subsystem.
      (let isDLL = (characteristics AND 0x2000 \<noteq> 0);
           isExe = (characteristics AND 0x0002 \<noteq> 0);
           sectionTableBase = optBase + sizeOfOptHeader in
      bindE (pe_sections buf sectionTableBase [0..<numSections]) (\<lambda>sections.
      (let fileType = (if isDLL then ''DLL'' else if isExe then ''EXE'' else ''OBJ'') in
       Inr \<lparr>p_format = ''PE'', p_type = ''PE ('' @ fst arch @ '')'', p_arch = fst arch,
            p_bits = snd arch, p_sections = sections, p_numSections = numSections,
            p_summary = fileType @ '', '' @ fst arch @ '', '' @ toString10 numSections
                          @ '' sections''\<rparr>))))))))))))))))))))"

section \<open>ELF parser (elfParser.js)\<close>

definition ELF_MACHINES :: "(nat \<times> string) list" where
  "ELF_MACHINES =
     [(0x00, ''None''), (0x02, ''SPARC''), (0x03, ''x86''), (0x08, ''MIPS''),
      (0x14, ''PowerPC''), (0x16, ''S390''), (0x28, ''ARM''), (0x2a, ''SuperH''),
      (0x32, ''IA-64''), (0x3e, ''AMD64''), (0xb7, ''AArch64''), (0xf3, ''RISC-V'')]"

definition ELF_TYPES :: "(nat \<times> string) list" where
  "ELF_TYPES =
     [(0, ''None''), (1, ''Relocatable''), (2, ''Executable''), (3, ''Shared Object''),
      (4, ''Core'')]"

definition SHT :: "(nat \<times> string) list" where
  "SHT =
     [(0, ''NULL''), (1, ''PROGBITS''), (2, ''SYMTAB''), (3, ''STRTAB''), (4, ''RELA''),
      (5, ''HASH''), (6, ''DYNAMIC''), (7, ''NOTE''), (8, ''NOBITS''), (9, ''REL''),
      (11, ''DYNSYM'')]"

definition ARCH_BITS :: "(string \<times> nat) list" where
  "ARCH_BITS =
     [(''x86'', 32), (''AMD64'', 64), (''ARM'', 32), (''AArch64'', 64), (''MIPS'', 32),
      (''RISC-V'', 64), (''PowerPC'', 32), (''IA-64'', 64)]"

text \<open>The readers \<open>read16\<close>, \<open>read32\<close> and \<open>read64\<close> for the byte order \<open>isLE\<close>.\<close>

definition read16 :: "buffer \<Rightarrow> bool \<Rightarrow> nat \<Rightarrow> js_error + nat" where
  "read16 buf isLE off = (if isLE then readUInt16LE buf off else readUInt16BE buf off)"

definition read32 :: "buffer \<Rightarrow> bool \<Rightarrow> nat \<Rightarrow> js_error + nat" where
  "read32 buf isLE off = (if isLE then readUInt32LE buf off else readUInt32BE buf off)"

definition read64 :: "buffer \<Rightarrow> bool \<Rightarrow> nat \<Rightarrow> js_error + nat" where
  "read64 buf isLE off =
     bindE (if isLE then readUInt32LE buf off else readUInt32BE buf (off + 4)) (\<lambda>lo.
     bindE (if isLE then readUInt32LE buf (off + 4) else readUInt32BE buf off) (\<lambda>hi.
       Inr (fl (hi * 0x100000000 + lo))))"

text \<open>\<open>readAddr\<close> and \<open>readOff\<close> are the same reader.\<close>

definition readAddr :: "buffer \<Rightarrow> bool \<Rightarrow> bool \<Rightarrow> nat \<Rightarrow> js_error + nat" where
  "readAddr buf is64 isLE off = (if is64 then read64 buf isLE off else read32 buf isLE off)"

text \<open>\<open>readCStr\<close>; \<open>None\<close> is the \<open>null\<close> string table.\<close>

definition readCStr :: "buffer option \<Rightarrow> nat \<Rightarrow> string" where
  "readCStr b off =
     (case b of
        None \<Rightarrow> []
      | Some buf \<Rightarrow>
          if off \<ge> length buf then []
          else ascii_string (takeWhile (\<lambda>x. x \<noteq> 0) (drop off buf)))"

text \<open>The body of the section-header loop for index \<open>i\<close> at offset \<open>off\<close>.\<close>

definition elf_section ::
  "buffer \<Rightarrow> bool \<Rightarrow> bool \<Rightarrow> buffer option \<Rightarrow> nat \<Rightarrow> nat \<Rightarrow> js_error + section_record" where
  "elf_section buf is64 isLE shstrBuf i off =
     bindE (read32 buf isLE off) (\<lambda>sh_name.
     bindE (read32 buf isLE (off + 4)) (\<lambda>sh_type.
     bindE (if is64 then readAddr buf is64 isLE (off + 8) else read32 buf isLE (off + 8)) (\<lambda>sh_flags.
     bindE (readAddr buf is64 isLE (if is64 then off + 16 else off + 12)) (\<lambda>sh_addr.
     bindE (readAddr buf is64 isLE (if is64 then off + 24 else off + 16)) (\<lambda>sh_offset.
     bindE (readAddr buf is64 isLE (if is64 then off + 32 else off + 20)) (\<lambda>sh_size.
       (let nm0 = readCStr shstrBuf sh_name;
            nm = (if nm0 = [] then ''section_'' @ toString10 i else nm0);
            ty = (case map_of SHT sh_type of Some t \<Rightarrow> t | None \<Rightarrow> ''0x'' @ toString16 sh_type);
            flagParts = (if sh_flags AND 0x1 \<noteq> 0 then [''WRITE''] else [])
                        @ (if sh_flags AND 0x2 \<noteq> 0 then [''ALLOC''] else [])
                        @ (if sh_flags AND 0x4 \<noteq> 0 then [''EXEC''] else [])
        in Inr \<lparr>sec_name = nm, virtualAddress = sh_addr, virtualSize = sh_size,
                rawOffset = sh_offset, rawSize = sh_size, sec_flags = sh_flags,
                flagsStr = (if join ''|'' flagParts = [] then ''NONE'' else join ''|'' flagParts),
                typeStr = Some ty, isCode = (sh_flags AND 0x4 \<noteq> 0)\<rparr>)))))))"

fun elf_sections ::
  "buffer \<Rightarrow> bool \<Rightarrow> bool \<Rightarrow> buffer option \<Rightarrow> nat \<Rightarrow> nat \<Rightarrow> nat list
     \<Rightarrow> js_error + section_record list" where
  "elf_sections buf is64 isLE shstrBuf e_shoff e_shentsize [] = Inr []"
| "elf_sections buf is64 isLE shstrBuf e_shoff e_shentsize (i # is) =
     (let off = fl (e_shoff + i * e_shentsize) in
      if fl (off + e_shentsize) > length buf then Inr []
      else bindE (elf_section buf is64 isLE shstrBuf i off) (\<lambda>s.
           bindE (elf_sections buf is64 isLE shstrBuf e_shoff e_shentsize is) (\<lambda>rest.
             Inr (s # rest))))"

text \<open>The section-header string table \<open>shstrBuf\<close>.\<close>

definition elf_shstrBuf ::
  "buffer \<Rightarrow> bool \<Rightarrow> bool \<Rightarrow> nat \<Rightarrow> nat \<Rightarrow> nat \<Rightarrow> nat \<Rightarrow> js_error + buffer option" where
  "elf_shstrBuf buf is64 isLE e_shoff e_shentsize e_shnum e_shstrndx =
     (if e_shoff \<noteq> 0 \<and> e_shnum \<noteq> 0 \<and> e_shstrndx < e_shnum then
        (let strShOff = fl (e_shoff + e_shstrndx * e_shentsize) in
         if fl (strShOff + e_shentsize) \<le> length buf then
           bindE (if is64 then readAddr buf is64 isLE (strShOff + 24)
                  else read32 buf isLE (strShOff + 16)) (\<lambda>strOffset.
           bindE (if is64 then readAddr buf is64 isLE (strShOff + 32)
                  else read32 buf isLE (strShOff + 20)) (\<lambda>strSize.
             if fl (strOffset + strSize) \<le> length buf
             then Inr (Some (slice buf strOffset (strOffset + strSize)))
             else Inr None))
         else Inr None)
      else Inr None)"

definition parseELF :: "buffer \<Rightarrow> js_error + parsed" where
  "parseELF buf =
     (if length buf < 16 then Inl (Error ''File too small to be an ELF'')
      else if buf ! 0 \<noteq> 0x7f \<or> buf ! 1 \<noteq> 0x45 \<or> buf ! 2 \<noteq> 0x4c \<or> buf ! 3 \<noteq> 0x46
      then Inl (Error ''Not an ELF file'')
      else (let is64 = (buf ! 4 = 2); isLE = (buf ! 5 = 1) in
      bindE (read16 buf isLE 0x10) (\<lambda>e_type.
      bindE (read16 buf isLE 0x12) (\<lambda>e_machine.
      bindE (readAddr buf is64 isLE 0x18) (\<lambda>e_entry.
      bindE (readAddr buf is64 isLE (if is64 then 0x28 else 0x20)) (\<lambda>e_shoff.
      bindE (read16 buf isLE (if is64 then 0x3a else 0x2e)) (\<lambda>e_shentsize.
      bindE (read16 buf isLE (if is64 then 0x3c else 0x30)) (\<lambda>e_shnum.
      bindE (read16 buf isLE (if is64 then 0x3e else 0x32)) (\<lambda>e_shstrndx.
      (let machName = (case map_of ELF_MACHINES e_machine of
                         Some m \<Rightarrow> m
                       | None \<Rightarrow> ''0x'' @ toString16 e_machine);
           bts = (case map_of ARCH_BITS machName of
                    Some b \<Rightarrow> b
                  | None \<Rightarrow> if is64 then 64 else 32) in
      bindE (elf_shstrBuf buf is64 isLE e_shoff e_shentsize e_shnum e_shstrndx) (\<lambda>shstrBuf.
      bindE (elf_sections buf is64 isLE shstrBuf e_shoff e_shentsize [0..<e_shnum]) (\<lambda>sections.
      (let fileType = (case map_of ELF_TYPES e_type of
                         Some t \<Rightarrow> t
                       | None \<Rightarrow> ''Type '' @ toString10 e_type) in
       Inr \<lparr>p_format = ''ELF'', p_type = ''ELF ('' @ machName @ '')'', p_arch = machName,
            p_bits = bts, p_sections = sections, p_numSections = length sections,
            p_summary = fileType @ '', '' @ machName @ '', '' @ toString10 (length sections)
                          @ '' sections''\<rparr>)))))))))))))"

section \<open>Decoder adapter (disassembler.js)\<close>

definition MAX_INSTRUCTIONS :: nat where
  "MAX_INSTRUCTIONS = 10000"

definition MAX_BYTES :: nat where
  "MAX_BYTES = 2 * 1024 * 1024"

text \<open>
  The iced-x86 library is outside the repository and is a parameter of the model. A run of
  its decoder over \<open>data\<close> from \<open>ip\<close> in a bit mode either throws or yields, one
  \<open>decode()\<close> at a time, instructions as (\<open>ip\<close>, \<open>length\<close>, formatted text) until
  \<open>canDecode\<close> is false. The library itself may be missing (\<open>None\<close>).
\<close>

datatype iced_run = IcedThrows | IcedStream "(nat \<times> nat \<times> string) list"

type_synonym iced = "nat \<Rightarrow> buffer \<Rightarrow> nat \<Rightarrow> iced_run"

definition hex2 :: "8 word \<Rightarrow> string" where
  "hex2 b = padStart 2 CHR ''0'' (toString16 (unat b))"

definition printable :: "8 word \<Rightarrow> char" where
  "printable b = (if 32 \<le> unat b \<and> unat b < 127 then char_of (unat b) else CHR ''.'')"

definition hexDump :: "buffer \<Rightarrow> nat \<Rightarrow> inst list" where
  "hexDump buf startOffset =
     (let limit = min (length buf) 512 in
      map (\<lambda>k. (let i = 16 * k; chunk = slice buf i (min (i + 16) limit) in
                 \<lparr>address = ''0x'' @ padStart 8 CHR ''0'' (toString16 (fl (startOffset + i))),
                  bytes = join '' '' (map hex2 chunk),
                  mnemonic = map printable chunk,
                  operands = []\<rparr>))
        [0..<(limit + 15) div 16])"

text \<open>The decode loop over the instructions the decoder yields, from byte \<open>offset\<close>.\<close>

fun decoded_insts :: "buffer \<Rightarrow> nat \<Rightarrow> nat \<Rightarrow> (nat \<times> nat \<times> string) list \<Rightarrow> inst list" where
  "decoded_insts data bits offset [] = []"
| "decoded_insts data bits offset ((ip, len, formatted) # rest) =
     \<lparr>address = ''0x'' @ padStart (if bits = 64 then 16 else 8) CHR ''0'' (toString16 ip),
      bytes = join '' '' (map hex2 (slice data offset (offset + len))),
      mnemonic = takeWhile (\<lambda>c. c \<noteq> CHR '' '') formatted,
      operands = (if CHR '' '' \<in> set formatted
                  then trim (drop 1 (dropWhile (\<lambda>c. c \<noteq> CHR '' '') formatted)) else [])\<rparr>
     # decoded_insts data bits (offset + len) rest"

definition disassemble :: "iced option \<Rightarrow> buffer \<Rightarrow> nat \<Rightarrow> nat \<Rightarrow> inst list \<times> bool" where
  "disassemble icedX86 buf va bits =
     (let data = (if length buf > MAX_BYTES then slice buf 0 MAX_BYTES else buf) in
      case icedX86 of
        None \<Rightarrow> (hexDump data va, True)
      | Some decoder \<Rightarrow>
          (let bitMode = (if bits = 64 then 64 else if bits = 16 then 16 else 32) in
           case decoder bitMode data va of
             IcedThrows \<Rightarrow> (hexDump data va, True)
           | IcedStream decoded \<Rightarrow>
               (decoded_insts data bits 0 (take MAX_INSTRUCTIONS decoded), False)))"

section \<open>Pipeline (analyzer.js)\<close>

definition upper_char :: "char \<Rightarrow> char" where
  "upper_char c =
     (case map_of (zip ''abcdefghijklmnopqrstuvwxyz'' ''ABCDEFGHIJKLMNOPQRSTUVWXYZ'') c of
        Some u \<Rightarrow> u
      | None \<Rightarrow> c)"

definition toUpperCase :: "string \<Rightarrow> string" where
  "toUpperCase s = map upper_char s"

text \<open>\<open>detectFormat\<close> gives (\<open>type\<close>, \<open>description\<close>); \<open>m\<close> is \<open>buffer.readUInt32BE(0)\<close>.\<close>

definition detectFormat :: "buffer \<Rightarrow> string \<times> string" where
  "detectFormat buf =
     (if length buf < 4 then (''raw'', ''Raw binary (too small)'')
      else if buf ! 0 = 0x4d \<and> buf ! 1 = 0x5a then (''pe'', ''PE (Portable Executable)'')
      else if buf ! 0 = 0x7f \<and> buf ! 1 = 0x45 \<and> buf ! 2 = 0x4c \<and> buf ! 3 = 0x46
      then (''elf'', ''ELF (Executable and Linkable Format)'')
      else (let m = 2 ^ 24 * unat (buf ! 0) + 2 ^ 16 * unat (buf ! 1) + 2 ^ 8 * unat (buf ! 2)
                    + unat (buf ! 3) :: nat in
        if m = 0xfeedface \<or> m = 0xcefaedfe then (''macho'', ''Mach-O (32-bit)'')
        else if m = 0xfeedfacf \<or> m = 0xcffaedfe then (''macho'', ''Mach-O (64-bit)'')
        else if m = 0xcafebabe then (''macho'', ''Mach-O FAT binary'')
        else (''raw'', ''Raw binary / unknown format'')))"

definition findCodeSection :: "section_record list \<Rightarrow> section_record option" where
  "findCodeSection sections =
     (case find (\<lambda>s. sec_name s = ''.text'' \<or> sec_name s = ''__text'') sections of
        Some s \<Rightarrow> Some s
      | None \<Rightarrow>
          (case find (\<lambda>s. isCode s \<and> rawSize s > 0) sections of
             Some s \<Rightarrow> Some s
           | None \<Rightarrow> find (\<lambda>s. rawSize s > 0) sections))"

text \<open>
  The report. \<open>sizeStr\<close> and the sections' \<open>size\<close> (decimal formatting of the size) and
  the spread \<open>info\<close> fields are left out. The events sent to \<open>emit\<close> are not modelled.
\<close>

record report_file =
  rf_name :: string
  rf_size :: nat
  rf_format :: string
  rf_type :: string
  rf_arch :: string
  rf_bits :: nat

record report_section =
  rs_name :: string
  rs_virtualAddress :: string
  rs_rawSize :: nat
  rs_flags :: string
  rs_isCode :: bool
  rs_type :: string

record report_disasm =
  d_section :: "string option"
  d_fallback :: bool
  d_instructions :: "inst list"
  d_baseVA :: nat

record report_analysis =
  a_xrefs :: xrefs
  a_funcLabels :: "(string \<times> string) list"
  a_byteSigs :: "sig_hit list"

record report =
  r_file :: report_file
  r_sections :: "report_section list"
  r_disasm :: report_disasm
  r_analysis :: report_analysis

text \<open>Stage 2: the parsed headers.\<close>

definition parse_headers :: "buffer \<Rightarrow> js_error + parsed" where
  "parse_headers buf =
     (let fmt = detectFormat buf in
      if fst fmt = ''pe'' then parsePE buf
      else if fst fmt = ''elf'' then parseELF buf
      else Inr \<lparr>p_format = toUpperCase (fst fmt), p_type = snd fmt, p_arch = ''unknown'',
                p_bits = 32, p_sections = [], p_numSections = 0, p_summary = snd fmt\<rparr>)"

text \<open>
  Stages 3 to 6, from the parsed headers. The result is \<open>None\<close> when the byte-signature
  scan does not return.
\<close>

definition build_report ::
  "iced option \<Rightarrow> buffer \<Rightarrow> string \<Rightarrow> nat \<Rightarrow> parsed \<Rightarrow> report option" where
  "build_report icedX86 buf originalName fileSize p =
     (let sections = p_sections p;
          codeSection = findCodeSection sections;
          hasCode = (case codeSection of
                       Some c \<Rightarrow> rawSize c > 0 \<and> rawOffset c > 0
                     | None \<Rightarrow> False);
          rawEnd = (case codeSection of
                      Some c \<Rightarrow> min (fl (rawOffset c + rawSize c)) (length buf)
                    | None \<Rightarrow> 0);
          rawStart = (case codeSection of Some c \<Rightarrow> rawOffset c | None \<Rightarrow> 0);
          codeBaseVA = (if hasCode \<and> rawEnd > rawStart
                        then (case codeSection of Some c \<Rightarrow> virtualAddress c | None \<Rightarrow> 0)
                        else 0);
          (insts, disasmFallback) =
             (if hasCode then
                (if rawEnd > rawStart
                 then disassemble icedX86 (slice buf rawStart rawEnd) codeBaseVA (p_bits p)
                 else ([], False))
              else if sections = [] then disassemble icedX86 buf 0 32
              else ([], False));
          disasmSection = (if hasCode \<and> rawEnd > rawStart
                           then map_option sec_name codeSection else None);
          xr = (if disasmFallback then [] else buildXrefs insts (p_bits p));
          fls = (if disasmFallback then [] else detectFunctions insts);
          sigs = (if hasCode
                  then matchByteSignatures (slice buf rawStart rawEnd) codeBaseVA (p_bits p)
                  else Some [])
      in map_option (\<lambda>byteSigs.
           \<lparr>r_file = \<lparr>rf_name = originalName, rf_size = fileSize, rf_format = p_format p,
                       rf_type = p_type p, rf_arch = p_arch p, rf_bits = p_bits p\<rparr>,
            r_sections = map (\<lambda>s.
               \<lparr>rs_name = sec_name s,
                rs_virtualAddress = ''0x'' @ padStart 8 CHR ''0'' (toString16 (virtualAddress s)),
                rs_rawSize = rawSize s,
                rs_flags = flagsStr s,
                rs_isCode = isCode s,
                rs_type = (case typeStr s of Some t \<Rightarrow> t | None \<Rightarrow> [])\<rparr>) sections,
            r_disasm = \<lparr>d_section = disasmSection, d_fallback = disasmFallback,
                         d_instructions = insts, d_baseVA = codeBaseVA\<rparr>,
            r_analysis = \<lparr>a_xrefs = xr, a_funcLabels = fls, a_byteSigs = byteSigs\<rparr>\<rparr>) sigs)"

text \<open>\<open>analyzeFile\<close>, on the bytes read from the file: it throws, returns a report, or does
  not return.\<close>

definition analyzeFile :: "iced option \<Rightarrow> buffer \<Rightarrow> string \<Rightarrow> nat \<Rightarrow> (js_error + report) option" where
  "analyzeFile icedX86 buf originalName fileSize =
     (case parse_headers buf of
        Inl e \<Rightarrow> Some (Inl e)
      | Inr p \<Rightarrow> map_option Inr (build_report icedX86 buf originalName fileSize p))"

section \<open>Interpreter: register tables\<close>

definition R64 :: "string list" where
  "R64 = [''rax'', ''rbx'', ''rcx'', ''rdx'', ''rsi'', ''rdi'', ''rsp'', ''rbp'',
          ''r8'', ''r9'', ''r10'', ''r11'', ''r12'', ''r13'', ''r14'', ''r15'', ''rip'']"

definition R32 :: "string list" where
  "R32 = [''eax'', ''ebx'', ''ecx'', ''edx'', ''esi'', ''edi'', ''esp'', ''ebp'',
          ''r8d'', ''r9d'', ''r10d'', ''r11d'', ''r12d'', ''r13d'', ''r14d'', ''r15d'', ''eip'']"

definition R16 :: "string list" where
  "R16 = [''ax'', ''bx'', ''cx'', ''dx'', ''si'', ''di'', ''sp'', ''bp'',
          ''r8w'', ''r9w'', ''r10w'', ''r11w'', ''r12w'', ''r13w'', ''r14w'', ''r15w'', ''ip'']"

definition R8L :: "string list" where
  "R8L = [''al'', ''bl'', ''cl'', ''dl'', ''sil'', ''dil'', ''spl'', ''bpl'',
          ''r8b'', ''r9b'', ''r10b'', ''r11b'', ''r12b'', ''r13b'', ''r14b'', ''r15b'']"

definition R8H :: "string list" where
  "R8H = [''ah'', ''bh'', ''ch'', ''dh'']"

text \<open>
  The three tables \<open>REG_MAP\<close>, \<open>REG_BITS\<close> and \<open>REG_SHIFT\<close> are filled together, one
  key at a time, by the two \<open>forEach\<close> loops; \<open>reg_rows\<close> lists the assignments in the
  order the loops make them, as (key, parent, bits, shift).
\<close>

definition reg_rows :: "(string \<times> string \<times> nat \<times> nat) list" where
  "reg_rows =
     concat (map (\<lambda>i.
        [(R64 ! i, R64 ! i, 64, 0), (R32 ! i, R64 ! i, 32, 0), (R16 ! i, R64 ! i, 16, 0)]
        @ (if i < length R8L then [(R8L ! i, R64 ! i, 8, 0)] else [])) [0..<length R64])
     @ map (\<lambda>i. (R8H ! i, [''rax'', ''rbx'', ''rcx'', ''rdx''] ! i, 8, 8)) [0..<length R8H]"

text \<open>
  What a lookup \<open>REG_MAP[name]\<close> finds. The tables are plain objects, so besides their own
  keys the two all-lowercase property names of \<open>Object.prototype\<close> are found as well; they
  hold objects, not table rows (\<open>Inherited\<close>).
\<close>

datatype reg_entry = Slot string nat nat | Inherited

definition reg_lookup :: "string \<Rightarrow> reg_entry option" where
  "reg_lookup name =
     (case map_of reg_rows name of
        Some (p, b, s) \<Rightarrow> Some (Slot p b s)
      | None \<Rightarrow> if name = ''constructor'' \<or> name = ''__proto__'' then Some Inherited else None)"

definition REG_MAP :: "string \<Rightarrow> bool" where
  "REG_MAP name = (reg_lookup name \<noteq> None)"

section \<open>Interpreter: memory\<close>

text \<open>
  A page is a \<open>Uint8Array(4096)\<close>: a byte for each offset below 4096, all zero when new.
  \<open>_pages\<close> maps a page base to its page.
\<close>

type_synonym page = "nat \<Rightarrow> 8 word"

type_synonym memory = "int \<rightharpoonup> page"

definition Memory_new :: memory where
  "Memory_new = Map.empty"

definition new_page :: page where
  "new_page = (\<lambda>_. 0)"

text \<open>\<open>_page(addr)\<close>: the page of \<open>addr\<close>, created on first touch.\<close>

definition Memory_page :: "memory \<Rightarrow> int \<Rightarrow> page \<times> memory" where
  "Memory_page m addr =
     (let pa = addr AND NOT 0xFFF in
      case m pa of
        None \<Rightarrow> (new_page, m(pa \<mapsto> new_page))
      | Some p \<Rightarrow> (p, m))"

definition r8 :: "memory \<Rightarrow> int \<Rightarrow> int \<times> memory" where
  "r8 m addr = (let (p, m') = Memory_page m addr in (uint (p (nat (addr AND 0xFFF))), m'))"

definition w8 :: "memory \<Rightarrow> int \<Rightarrow> int \<Rightarrow> memory" where
  "w8 m addr v =
     (let (p, m') = Memory_page m addr in
      m'(addr AND NOT 0xFFF \<mapsto> p(nat (addr AND 0xFFF) := word_of_int (v AND 0xFF))))"

text \<open>The \<open>for\<close> loops of \<open>readLE\<close>, \<open>writeLE\<close> and \<open>load\<close> run \<open>i\<close> over \<open>0..<bytes\<close>.\<close>

definition readLE :: "memory \<Rightarrow> int \<Rightarrow> nat \<Rightarrow> int \<times> memory" where
  "readLE m addr nbytes =
     fold (\<lambda>i (v, m). let (b, m') = r8 m (addr + int i) in (v OR push_bit (i * 8) b, m'))
       [0..<nbytes] (0, m)"

definition writeLE :: "memory \<Rightarrow> int \<Rightarrow> int \<Rightarrow> nat \<Rightarrow> memory" where
  "writeLE m addr val nbytes =
     fold (\<lambda>i m. w8 m (addr + int i) (drop_bit (i * 8) val AND 0xFF)) [0..<nbytes] m"

definition Memory_load :: "memory \<Rightarrow> int \<Rightarrow> int list \<Rightarrow> memory" where
  "Memory_load m addr data =
     fold (\<lambda>i m. w8 m (addr + int i) (data ! i)) [0..<length data] m"

section \<open>Interpreter: register file\<close>

text \<open>
  \<open>_r\<close> holds a BigInt for each of the 17 names of \<open>R64\<close>, and is only ever indexed by a
  parent name taken from the tables.
\<close>

type_synonym regfile = "string \<Rightarrow> int"

definition Registers_new :: regfile where
  "Registers_new = (\<lambda>_. 0)"

text \<open>
  \<open>get\<close> and \<open>set\<close>. For an inherited key \<open>BigInt(REG_SHIFT[name] || 0)\<close> is applied to
  an object and throws.
\<close>

definition Registers_get :: "regfile \<Rightarrow> string \<Rightarrow> js_error + int" where
  "Registers_get r name0 =
     (let name = toLowerCase name0 in
      case reg_lookup name of
        None \<Rightarrow> Inr 0
      | Some Inherited \<Rightarrow> Inl SyntaxError
      | Some (Slot p bits shift) \<Rightarrow>
          (let mask = push_bit bits 1 - 1 in Inr (drop_bit shift (r p) AND mask)))"

definition Registers_set :: "regfile \<Rightarrow> string \<Rightarrow> int \<Rightarrow> js_error + regfile" where
  "Registers_set r name0 val =
     (let name = toLowerCase name0 in
      case reg_lookup name of
        None \<Rightarrow> Inr r
      | Some Inherited \<Rightarrow> Inl SyntaxError
      | Some (Slot p bits shift) \<Rightarrow>
          (let mask = push_bit bits 1 - 1;
               clr = NOT (push_bit shift mask);
               v = (r p AND clr) OR push_bit shift (val AND mask)
           in Inr (r(p := (if bits = 32 then v AND 0xFFFFFFFF else v)))))"

text \<open>The byte a memory holds at an address, without touching it (used to state properties).\<close>

definition peek :: "memory \<Rightarrow> int \<Rightarrow> 8 word" where
  "peek m a = (case m (a AND NOT 0xFFF) of None \<Rightarrow> 0 | Some p \<Rightarrow> p (nat (a AND 0xFFF)))"

section \<open>Interpreter: flags\<close>

text \<open>The flag \<open>of\<close> is the field \<open>ovf\<close> (\<open>of\<close> is reserved in Isabelle).\<close>

record flags =
  cf :: bool
  zf :: bool
  sf :: bool
  ovf :: bool
  pf :: bool
  af :: bool

definition Flags_new :: flags where
  "Flags_new = \<lparr>cf = False, zf = False, sf = False, ovf = False, pf = False, af = False\<rparr>"

text \<open>\<open>x << BigInt(k)\<close> for a Number \<open>k\<close> that may be negative (then it shifts right).\<close>

definition shl :: "int \<Rightarrow> int \<Rightarrow> int" where
  "shl x k = (if 0 \<le> k then push_bit (nat k) x else drop_bit (nat (- k)) x)"

definition parity :: "int \<Rightarrow> bool" where
  "parity n0 =
     (let n = n0 AND 0xFF;
          n1 = n XOR drop_bit 4 n;
          n2 = n1 XOR drop_bit 2 n1;
          n3 = n2 XOR drop_bit 1 n2
      in n3 AND 1 = 0)"

definition setArith :: "flags \<Rightarrow> int \<Rightarrow> int \<Rightarrow> int \<Rightarrow> nat \<Rightarrow> bool \<Rightarrow> flags" where
  "setArith f result a b bits isSub =
     (let mask = shl 1 (int bits) - 1;
          sgn = shl 1 (int bits - 1);
          r = take_bit bits result;
          sa = (a AND sgn \<noteq> 0);
          sb = (b AND sgn \<noteq> 0);
          sr = (r AND sgn \<noteq> 0)
      in f\<lparr>zf := (r = 0),
            sf := (r AND sgn \<noteq> 0),
            cf := (result > mask \<or> result < 0),
            ovf := (if isSub then sa \<noteq> sb \<and> sr \<noteq> sa else sa = sb \<and> sr \<noteq> sa),
            pf := parity r\<rparr>)"

definition check :: "flags \<Rightarrow> string \<Rightarrow> bool" where
  "check f code =
     (if code = ''o'' then ovf f
      else if code = ''no'' then \<not> ovf f
      else if code = ''s'' then sf f
      else if code = ''ns'' then \<not> sf f
      else if code = ''e'' \<or> code = ''z'' then zf f
      else if code = ''ne'' \<or> code = ''nz'' then \<not> zf f
      else if code = ''b'' \<or> code = ''nae'' \<or> code = ''c'' then cf f
      else if code = ''nb'' \<or> code = ''ae'' \<or> code = ''nc'' then \<not> cf f
      else if code = ''be'' \<or> code = ''na'' then cf f \<or> zf f
      else if code = ''a'' \<or> code = ''nbe'' then \<not> cf f \<and> \<not> zf f
      else if code = ''l'' \<or> code = ''nge'' then sf f \<noteq> ovf f
      else if code = ''ge'' \<or> code = ''nl'' then sf f = ovf f
      else if code = ''le'' \<or> code = ''ng'' then zf f \<or> sf f \<noteq> ovf f
      else if code = ''g'' \<or> code = ''nle'' then \<not> zf f \<and> sf f = ovf f
      else if code = ''p'' \<or> code = ''pe'' then pf f
      else if code = ''np'' \<or> code = ''po'' then \<not> pf f
      else False)"

section \<open>Interpreter: operand parser\<close>

text \<open>The regular expressions of \<open>parseImm\<close>, on lowercased text, without the \<open>i\<close> flag.\<close>

definition match_imm_h :: "string \<Rightarrow> string option" where
  "match_imm_h s =
     (if s \<noteq> [] \<and> last s = CHR ''h'' \<and> butlast s \<noteq> [] \<and> list_all is_hex_lower (butlast s)
      then Some (butlast s) else None)"

definition match_imm_0x :: "string \<Rightarrow> string option" where
  "match_imm_0x s =
     (if startsWith s ''0x'' \<and> drop 2 s \<noteq> [] \<and> list_all is_hex_lower (drop 2 s)
      then Some (drop 2 s) else None)"

definition match_digits :: "string \<Rightarrow> bool" where
  "match_digits s = (s \<noteq> [] \<and> list_all is_digit s)"

definition parseImm :: "string \<Rightarrow> int option" where
  "parseImm str0 =
     (let str1 = toLowerCase (trim str0);
          neg = startsWith str1 ''-'';
          str = (if neg then drop 1 str1 else str1);
          v1 = (case match_imm_h str of Some h \<Rightarrow> Some (int (digits_value 16 h)) | None \<Rightarrow> None);
          v2 = (case match_imm_0x str of Some h \<Rightarrow> Some (int (digits_value 16 h)) | None \<Rightarrow> v1);
          v3 = (if match_digits str then Some (int (digits_value 10 str)) else v2)
      in case v3 of Some v \<Rightarrow> Some (if neg then - v else v) | None \<Rightarrow> None)"

text \<open>\<open>String.prototype.split\<close> on one character.\<close>

fun split_on :: "char \<Rightarrow> string \<Rightarrow> string list" where
  "split_on c [] = [[]]"
| "split_on c (x # xs) =
     (if x = c then [] # split_on c xs
      else (case split_on c xs of [] \<Rightarrow> [[x]] | p # ps \<Rightarrow> (x # p) # ps))"

text \<open>\<open>expr.replace(/-/g, '+-').split('+').map(t => t.trim()).filter(Boolean)\<close>\<close>

definition addr_tokens :: "string \<Rightarrow> string list" where
  "addr_tokens expr =
     filter (\<lambda>t. t \<noteq> [])
       (map trim (split_on CHR ''+'' (concat (map (\<lambda>c. if c = CHR ''-'' then ''+-'' else [c]) expr))))"

definition is_alpha :: "char \<Rightarrow> bool" where
  "is_alpha c = (c \<in> set ''abcdefghijklmnopqrstuvwxyzABCDEFGHIJKLMNOPQRSTUVWXYZ'')"

text \<open>
  \<open>/^([a-z][a-z0-9]*)[\*\<times>](\d+)$/i\<close> on ASCII text: the register name and the digits of
  the scale.
\<close>

definition match_scaled :: "string \<Rightarrow> (string \<times> string) option" where
  "match_scaled t =
     (let nm = takeWhile (\<lambda>c. c \<noteq> CHR ''*'') t;
          rest = dropWhile (\<lambda>c. c \<noteq> CHR ''*'') t
      in if nm \<noteq> [] \<and> is_alpha (hd nm) \<and> list_all (\<lambda>c. is_alpha c \<or> is_digit c) nm
            \<and> rest \<noteq> [] \<and> match_digits (drop 1 rest)
         then Some (nm, drop 1 rest) else None)"

text \<open>One token of \<open>evalAddr\<close>, added to \<open>result\<close>; \<open>regs.get\<close> may throw.\<close>

definition evalAddr_token :: "regfile \<Rightarrow> string \<Rightarrow> int \<Rightarrow> js_error + int" where
  "evalAddr_token r tok result =
     (let neg = startsWith tok ''-'';
          t = (if neg then drop 1 tok else tok)
      in case match_scaled t of
           Some (nm, sc) \<Rightarrow>
             bindE (Registers_get r nm) (\<lambda>v.
               Inr (result + (if neg then - 1 else 1) * (v * int (digits_value 10 sc))))
         | None \<Rightarrow>
             if REG_MAP (toLowerCase t)
             then bindE (Registers_get r t) (\<lambda>v. Inr (result + (if neg then - 1 else 1) * v))
             else (case parseImm ((if neg then ''-'' else []) @ t) of
                     Some iv \<Rightarrow> Inr (result + iv)
                   | None \<Rightarrow> Inr result))"

fun evalAddr_loop :: "regfile \<Rightarrow> string list \<Rightarrow> int \<Rightarrow> js_error + int" where
  "evalAddr_loop r [] result = Inr result"
| "evalAddr_loop r (tok # toks) result =
     bindE (evalAddr_token r tok result) (\<lambda>result'. evalAddr_loop r toks result')"

definition evalAddr :: "string \<Rightarrow> regfile \<Rightarrow> js_error + int" where
  "evalAddr expr r = bindE (evalAddr_loop r (addr_tokens expr) 0) (\<lambda>result. Inr (take_bit 64 result))"

text \<open>
  An operand as \<open>parseOp\<close> returns it: its kind, its width \<open>bytes\<close> and what its \<open>read\<close> and
  \<open>write\<close> closures refer to.
\<close>

datatype operand = OpMem nat int | OpReg string nat | OpImm nat int | OpUnknown nat

fun op_bytes :: "operand \<Rightarrow> nat" where
  "op_bytes (OpMem b a) = b"
| "op_bytes (OpReg n b) = b"
| "op_bytes (OpImm b v) = b"
| "op_bytes (OpUnknown b) = b"

text \<open>\<open>str.replace(/^(qword|dword|word|byte)\s+/, ...)\<close>: the width, if any, and the rest.\<close>

definition strip_size :: "string \<Rightarrow> nat option \<times> string" where
  "strip_size str =
     (case find (\<lambda>p. startsWith str (fst p) \<and> drop (length (fst p)) str \<noteq> []
                       \<and> is_space (hd (drop (length (fst p)) str)))
             [(''qword'', 8), (''dword'', 4), (''word'', 2), (''byte'', 1)] of
        Some p \<Rightarrow> (Some (snd p), dropWhile is_space (drop (length (fst p)) str))
      | None \<Rightarrow> (None, str))"

text \<open>\<open>s.startsWith('[') && s.endsWith(']')\<close> and \<open>s.slice(1, -1)\<close>.\<close>

definition bracketed :: "string \<Rightarrow> bool" where
  "bracketed s = (startsWith s ''['' \<and> endsWith s '']'')"

definition inner :: "string \<Rightarrow> string" where
  "inner s = butlast (drop 1 s)"

definition parseOp :: "string \<Rightarrow> regfile \<Rightarrow> nat \<Rightarrow> js_error + operand" where
  "parseOp str0 r defaultBytes =
     (let (sz, str) = strip_size (toLowerCase (trim str0));
          nbytes = (case sz of Some b \<Rightarrow> b | None \<Rightarrow> defaultBytes)
      in if bracketed str then bindE (evalAddr (trim (inner str)) r) (\<lambda>addr. Inr (OpMem nbytes addr))
         else (case reg_lookup str of
                 Some (Slot p w sh) \<Rightarrow> Inr (OpReg str (w div 8))
               | Some Inherited \<Rightarrow> Inr (OpReg str 0)
               | None \<Rightarrow>
                   (case parseImm str of
                      Some iv \<Rightarrow> Inr (OpImm nbytes iv)
                    | None \<Rightarrow> Inr (OpUnknown nbytes))))"

text \<open>The loop of \<open>splitOps\<close> over the characters: (\<open>parts\<close>, \<open>depth\<close>, \<open>cur\<close>).\<close>

definition splitOps_step :: "char \<Rightarrow> string list \<times> int \<times> string \<Rightarrow> string list \<times> int \<times> string" where
  "splitOps_step ch st =
     (let (parts, depth0, cur) = st;
          depth = (if ch = CHR ''['' then depth0 + 1 else if ch = CHR '']'' then depth0 - 1 else depth0)
      in if ch = CHR '','' \<and> depth = 0 then (parts @ [trim cur], depth, [])
         else (parts, depth, cur @ [ch]))"

definition splitOps :: "string \<Rightarrow> string list" where
  "splitOps str =
     (let (parts, depth, cur) = fold splitOps_step str ([], 0, [])
      in if trim cur \<noteq> [] then parts @ [trim cur] else parts)"

section \<open>Interpreter: the simulator\<close>

text \<open>
  The state of an \<open>X86Sim\<close>: \<open>imap\<close> is the field \<open>_map\<close>, \<open>ilist\<close> is \<open>_list\<close> and
  \<open>maxSteps\<close> is \<open>_maxSteps\<close>.
\<close>

record sim =
  sim_bits :: nat
  regs :: regfile
  mem :: memory
  flags :: flags
  breakpoints :: "string set"
  imap :: "string \<rightharpoonup> inst"
  ilist :: "inst list"
  maxSteps :: nat

definition X86Sim :: "nat \<Rightarrow> sim" where
  "X86Sim bits =
     \<lparr>sim_bits = (if bits = 0 then 64 else bits), regs = Registers_new, mem = Memory_new,
      flags = Flags_new, breakpoints = {}, imap = Map.empty, ilist = [], maxSteps = 50000\<rparr>"

text \<open>
  A method of the simulator takes the state and gives back what it returns or throws,
  with the state it leaves.
\<close>

type_synonym 'a exec = "sim \<Rightarrow> (js_error + 'a) \<times> sim"

definition returnS :: "'a \<Rightarrow> 'a exec" where
  "returnS x = (\<lambda>s. (Inr x, s))"

definition throwS :: "js_error \<Rightarrow> 'a exec" where
  "throwS e = (\<lambda>s. (Inl e, s))"

definition bindS :: "'a exec \<Rightarrow> ('a \<Rightarrow> 'b exec) \<Rightarrow> 'b exec" where
  "bindS m f = (\<lambda>s. case m s of (Inl e, s') \<Rightarrow> (Inl e, s') | (Inr x, s') \<Rightarrow> f x s')"

definition liftE :: "js_error + 'a \<Rightarrow> 'a exec" where
  "liftE r = (\<lambda>s. (r, s))"

definition reg_get :: "string \<Rightarrow> int exec" where
  "reg_get nm = (\<lambda>s. (Registers_get (regs s) nm, s))"

definition reg_set :: "string \<Rightarrow> int \<Rightarrow> unit exec" where
  "reg_set nm v =
     (\<lambda>s. case Registers_set (regs s) nm v of
             Inl e \<Rightarrow> (Inl e, s)
           | Inr r \<Rightarrow> (Inr (), s\<lparr>regs := r\<rparr>))"

definition mem_read :: "int \<Rightarrow> nat \<Rightarrow> int exec" where
  "mem_read addr n = (\<lambda>s. let (v, m) = readLE (mem s) addr n in (Inr v, s\<lparr>mem := m\<rparr>))"

definition mem_write :: "int \<Rightarrow> int \<Rightarrow> nat \<Rightarrow> unit exec" where
  "mem_write addr v n = (\<lambda>s. (Inr (), s\<lparr>mem := writeLE (mem s) addr v n\<rparr>))"

definition get_flags :: "flags exec" where
  "get_flags = (\<lambda>s. (Inr (flags s), s))"

definition set_flags :: "flags \<Rightarrow> unit exec" where
  "set_flags f = (\<lambda>s. (Inr (), s\<lparr>flags := f\<rparr>))"

text \<open>The \<open>read\<close> and \<open>write\<close> closures of an operand.\<close>

fun op_read :: "operand \<Rightarrow> int exec" where
  "op_read (OpMem b addr) = mem_read addr b"
| "op_read (OpReg nm b) = reg_get nm"
| "op_read (OpImm b iv) = returnS iv"
| "op_read (OpUnknown b) = returnS 0"

fun op_write :: "operand \<Rightarrow> int \<Rightarrow> unit exec" where
  "op_write (OpMem b addr) v = mem_write addr v b"
| "op_write (OpReg nm b) v = reg_set nm v"
| "op_write (OpImm b iv) v = returnS ()"
| "op_write (OpUnknown b) v = returnS ()"

text \<open>\<open>regs.get\<close> of one of the 17 parent names, where it cannot throw.\<close>

definition get64 :: "regfile \<Rightarrow> string \<Rightarrow> int" where
  "get64 r nm = (case Registers_get r nm of Inr v \<Rightarrow> v | Inl e \<Rightarrow> 0)"

definition ripAddr :: "sim \<Rightarrow> string" where
  "ripAddr s =
     ''0x'' @ padStart (if sim_bits s = 64 then 16 else 8) CHR ''0''
               (toString16 (nat (get64 (regs s) ''rip'')))"

definition currentInst :: "sim \<Rightarrow> inst option" where
  "currentInst s = imap s (ripAddr s)"

text \<open>\<open>load\<close>: \<open>BigInt(parseInt(...))\<close> throws when the first address is not a number.\<close>

definition load :: "inst list \<Rightarrow> unit exec" where
  "load instructions =
     (\<lambda>s0.
        (let s1 = s0\<lparr>ilist := instructions,
                      imap := fold (\<lambda>i m. m(toLowerCase (address i) \<mapsto> i)) instructions Map.empty\<rparr>
         in bindS (if instructions \<noteq> []
                   then (case parseInt16 (address (instructions ! 0)) of
                           None \<Rightarrow> throwS RangeError
                         | Some a \<Rightarrow> reg_set ''rip'' a)
                   else returnS ()) (\<lambda>_.
            bindS (reg_set ''rsp'' 0x7fff0000) (\<lambda>_.
              (\<lambda>s. (Inr (), s\<lparr>mem := fold (\<lambda>i m. snd (Memory_page m (0x7fff0000 - int (i * 0x1000))))
                                          [0..<16] (mem s)\<rparr>)))) s1))"

definition reset :: "inst list \<Rightarrow> unit exec" where
  "reset instructions =
     (\<lambda>s. load instructions (s\<lparr>regs := Registers_new, mem := Memory_new, flags := Flags_new\<rparr>))"

text \<open>The helpers of \<open>_exec\<close>: \<open>op(i)\<close>, \<open>jmp\<close> and \<open>resolveTarget\<close>.\<close>

definition op_at :: "string list \<Rightarrow> nat \<Rightarrow> operand exec" where
  "op_at ops i =
     (\<lambda>s. (parseOp (if i < length ops then ops ! i else []) (regs s) (sim_bits s div 8), s))"

definition jmp :: "int option \<Rightarrow> unit exec" where
  "jmp addr = (case addr of Some a \<Rightarrow> reg_set ''rip'' a | None \<Rightarrow> returnS ())"

definition resolveTarget :: "string list \<Rightarrow> int option exec" where
  "resolveTarget ops =
     (\<lambda>s. (let t = toLowerCase (trim (if 0 < length ops then ops ! 0 else [])) in
            if REG_MAP t then bindS (reg_get t) (\<lambda>v. returnS (Some v))
            else (case parseImm t of
                    Some iv \<Rightarrow> returnS (Some iv)
                  | None \<Rightarrow>
                      if bracketed t
                      then bindS (liftE (evalAddr (inner t) (regs s))) (\<lambda>a.
                           bindS (mem_read a (sim_bits s div 8)) (\<lambda>v. returnS (Some v)))
                      else returnS None)) s)"

text \<open>The flag updates shared by the logic instructions: \<open>zf\<close> and \<open>sf\<close> of \<open>r\<close>.\<close>

definition sign_bit :: "nat \<Rightarrow> int" where
  "sign_bit bits = shl 1 (int bits - 1)"

text \<open>\<open>Number(s.read() & 0x3Fn) % bits\<close>; \<open>None\<close> is \<open>NaN\<close> (when \<open>bits\<close> is 0).\<close>

definition shift_count :: "int \<Rightarrow> nat \<Rightarrow> nat option" where
  "shift_count v bits = (if bits = 0 then None else Some (nat (v AND 0x3F) mod bits))"

section \<open>Interpreter: \<open>_exec\<close> and \<open>step\<close>\<close>

text \<open>
  The default advance of \<open>rip\<close> at the start of \<open>_exec\<close>; it returns \<open>nextRip\<close>.
\<close>

definition advance_rip :: "inst \<Rightarrow> int exec" where
  "advance_rip i =
     (\<lambda>s. (case inst_after (ilist s) (address i) of
              Some nx \<Rightarrow>
                (case parseInt16 (address nx) of
                   None \<Rightarrow> throwS RangeError
                 | Some a \<Rightarrow> bindS (reg_set ''rip'' a) (\<lambda>_. returnS a))
            | None \<Rightarrow> bindS (reg_get ''rip'') (\<lambda>a. bindS (reg_set ''rip'' a) (\<lambda>_. returnS a))) s)"

definition exec_mov :: "string list \<Rightarrow> unit exec" where
  "exec_mov ops =
     bindS (op_at ops 0) (\<lambda>d. bindS (op_at ops 1) (\<lambda>src.
     bindS (op_read src) (\<lambda>v. op_write d v)))"

definition exec_movzx :: "string list \<Rightarrow> unit exec" where
  "exec_movzx ops =
     bindS (op_at ops 0) (\<lambda>d. bindS (op_at ops 1) (\<lambda>src.
     bindS (op_read src) (\<lambda>v. op_write d (take_bit (op_bytes d * 8) v))))"

definition exec_movsx :: "string list \<Rightarrow> unit exec" where
  "exec_movsx ops =
     bindS (op_at ops 0) (\<lambda>d. bindS (op_at ops 1) (\<lambda>src.
     bindS (op_read src) (\<lambda>sv.
       (let sb = op_bytes src * 8;
            ext = (if sv AND sign_bit sb \<noteq> 0 then sv OR NOT (shl 1 (int sb) - 1) else sv)
        in op_write d (take_bit (op_bytes d * 8) ext)))))"

definition exec_push :: "string list \<Rightarrow> unit exec" where
  "exec_push ops =
     (\<lambda>s. (let db = sim_bits s div 8 in
       bindS (op_at ops 0) (\<lambda>d. bindS (op_read d) (\<lambda>v.
       bindS (reg_get ''rsp'') (\<lambda>rsp0.
       bindS (reg_set ''rsp'' (rsp0 - int db)) (\<lambda>_.
         mem_write (rsp0 - int db) v db))))) s)"

definition exec_pop :: "string list \<Rightarrow> unit exec" where
  "exec_pop ops =
     (\<lambda>s. (let db = sim_bits s div 8 in
       bindS (reg_get ''rsp'') (\<lambda>rsp.
       bindS (op_at ops 0) (\<lambda>d.
       bindS (mem_read rsp db) (\<lambda>v.
       bindS (op_write d v) (\<lambda>_.
         reg_set ''rsp'' (rsp + int db)))))) s)"

definition exec_addsub :: "bool \<Rightarrow> string list \<Rightarrow> unit exec" where
  "exec_addsub isSub ops =
     bindS (op_at ops 0) (\<lambda>d. bindS (op_at ops 1) (\<lambda>src.
     bindS (op_read d) (\<lambda>a. bindS (op_read src) (\<lambda>b.
       (let bits = op_bytes d * 8; r = (if isSub then a - b else a + b) in
        bindS get_flags (\<lambda>f.
        bindS (set_flags (setArith f r a b bits isSub)) (\<lambda>_.
          op_write d (take_bit bits r))))))))"

text \<open>\<open>xor\<close>, \<open>and\<close> and \<open>or\<close>: \<open>xor\<close> truncates what it writes, \<open>or\<close> leaves \<open>pf\<close>.\<close>

definition exec_xor :: "string list \<Rightarrow> unit exec" where
  "exec_xor ops =
     bindS (op_at ops 0) (\<lambda>d. bindS (op_at ops 1) (\<lambda>src.
     bindS (op_read d) (\<lambda>a. bindS (op_read src) (\<lambda>b.
       (let bits = op_bytes d * 8; r = a XOR b in
        bindS get_flags (\<lambda>f.
        bindS (set_flags (f\<lparr>cf := False, ovf := False, zf := (r = 0),
                            sf := (r AND sign_bit bits \<noteq> 0), pf := parity r\<rparr>)) (\<lambda>_.
          op_write d (take_bit bits r))))))))"

definition exec_and :: "string list \<Rightarrow> unit exec" where
  "exec_and ops =
     bindS (op_at ops 0) (\<lambda>d. bindS (op_at ops 1) (\<lambda>src.
     bindS (op_read d) (\<lambda>a. bindS (op_read src) (\<lambda>b.
       (let bits = op_bytes d * 8; r = a AND b in
        bindS get_flags (\<lambda>f.
        bindS (set_flags (f\<lparr>cf := False, ovf := False, zf := (r = 0),
                            sf := (r AND sign_bit bits \<noteq> 0), pf := parity r\<rparr>)) (\<lambda>_.
          op_write d r)))))))"

definition exec_or :: "string list \<Rightarrow> unit exec" where
  "exec_or ops =
     bindS (op_at ops 0) (\<lambda>d. bindS (op_at ops 1) (\<lambda>src.
     bindS (op_read d) (\<lambda>a. bindS (op_read src) (\<lambda>b.
       (let bits = op_bytes d * 8; r = a OR b in
        bindS get_flags (\<lambda>f.
        bindS (set_flags (f\<lparr>cf := False, ovf := False, zf := (r = 0),
                            sf := (r AND sign_bit bits \<noteq> 0)\<rparr>)) (\<lambda>_.
          op_write d r)))))))"

definition exec_not :: "string list \<Rightarrow> unit exec" where
  "exec_not ops =
     bindS (op_at ops 0) (\<lambda>d. bindS (op_read d) (\<lambda>v.
       op_write d (take_bit (op_bytes d * 8) (NOT v))))"

definition exec_neg :: "string list \<Rightarrow> unit exec" where
  "exec_neg ops =
     bindS (op_at ops 0) (\<lambda>d. bindS (op_read d) (\<lambda>v.
       (let bits = op_bytes d * 8; r = take_bit bits (- v) in
        bindS get_flags (\<lambda>f.
        bindS (set_flags (f\<lparr>cf := (v \<noteq> 0), zf := (r = 0),
                            sf := (r AND sign_bit bits \<noteq> 0), ovf := (v = sign_bit bits)\<rparr>)) (\<lambda>_.
          op_write d r)))))"

definition exec_inc :: "string list \<Rightarrow> unit exec" where
  "exec_inc ops =
     bindS (op_at ops 0) (\<lambda>d. bindS (op_read d) (\<lambda>a.
       (let bits = op_bytes d * 8; r = take_bit bits (a + 1) in
        bindS (op_write d r) (\<lambda>_.
        bindS get_flags (\<lambda>f.
          set_flags (f\<lparr>zf := (r = 0), sf := (r AND sign_bit bits \<noteq> 0),
                       ovf := (a = sign_bit bits - 1)\<rparr>))))))"

definition exec_dec :: "string list \<Rightarrow> unit exec" where
  "exec_dec ops =
     bindS (op_at ops 0) (\<lambda>d. bindS (op_read d) (\<lambda>a.
       (let bits = op_bytes d * 8; r = take_bit bits (a - 1) in
        bindS (op_write d r) (\<lambda>_.
        bindS get_flags (\<lambda>f.
          set_flags (f\<lparr>zf := (r = 0), sf := (r AND sign_bit bits \<noteq> 0),
                       ovf := (a = sign_bit bits)\<rparr>))))))"

definition exec_cmp :: "string list \<Rightarrow> unit exec" where
  "exec_cmp ops =
     bindS (op_at ops 0) (\<lambda>d. bindS (op_at ops 1) (\<lambda>src.
     bindS (op_read d) (\<lambda>a. bindS (op_read src) (\<lambda>b.
     bindS get_flags (\<lambda>f.
       set_flags (setArith f (a - b) a b (op_bytes d * 8) True))))))"

definition exec_test :: "string list \<Rightarrow> unit exec" where
  "exec_test ops =
     bindS (op_at ops 0) (\<lambda>d. bindS (op_at ops 1) (\<lambda>src.
     bindS (op_read d) (\<lambda>a. bindS (op_read src) (\<lambda>b.
       (let bits = op_bytes d * 8; r = a AND b in
        bindS get_flags (\<lambda>f.
          set_flags (f\<lparr>cf := False, ovf := False, zf := (r = 0),
                       sf := (r AND sign_bit bits \<noteq> 0), pf := parity r\<rparr>)))))))"

definition exec_lea :: "string list \<Rightarrow> unit exec" where
  "exec_lea ops =
     bindS (op_at ops 0) (\<lambda>d.
       (let src = snd (strip_size (toLowerCase (trim (if 1 < length ops then ops ! 1 else []))))
        in if bracketed src
           then (\<lambda>s. bindS (liftE (evalAddr (trim (inner src)) (regs s))) (\<lambda>a. op_write d a) s)
           else returnS ()))"

text \<open>
  The shifts. When the count is \<open>NaN\<close>, \<open>BigInt(sh)\<close> throws where the shift is computed.
\<close>

definition exec_shl :: "string list \<Rightarrow> unit exec" where
  "exec_shl ops =
     bindS (op_at ops 0) (\<lambda>d. bindS (op_at ops 1) (\<lambda>src.
     bindS (op_read src) (\<lambda>c. bindS (op_read d) (\<lambda>v.
       (let bits = op_bytes d * 8 in
        case shift_count c bits of
          None \<Rightarrow> throwS RangeError
        | Some sh \<Rightarrow>
            (let r = take_bit bits (push_bit sh v) in
             bindS get_flags (\<lambda>f.
             bindS (set_flags ((if sh > 0 then f\<lparr>cf := (v AND shl 1 (int bits - int sh) \<noteq> 0)\<rparr> else f)
                                \<lparr>zf := (r = 0), sf := (r AND sign_bit bits \<noteq> 0)\<rparr>)) (\<lambda>_.
               op_write d r))))))))"

definition exec_shr :: "string list \<Rightarrow> unit exec" where
  "exec_shr ops =
     bindS (op_at ops 0) (\<lambda>d. bindS (op_at ops 1) (\<lambda>src.
     bindS (op_read src) (\<lambda>c. bindS (op_read d) (\<lambda>v.
       (let bits = op_bytes d * 8 in
        case shift_count c bits of
          None \<Rightarrow> throwS RangeError
        | Some sh \<Rightarrow>
            (let r = drop_bit sh v in
             bindS get_flags (\<lambda>f.
             bindS (set_flags ((if sh > 0 then f\<lparr>cf := (v AND shl 1 (int sh - 1) \<noteq> 0)\<rparr> else f)
                                \<lparr>zf := (r = 0), sf := (r AND sign_bit bits \<noteq> 0)\<rparr>)) (\<lambda>_.
               op_write d r))))))))"

definition exec_sar :: "string list \<Rightarrow> unit exec" where
  "exec_sar ops =
     bindS (op_at ops 0) (\<lambda>d. bindS (op_at ops 1) (\<lambda>src.
     bindS (op_read src) (\<lambda>c. bindS (op_read d) (\<lambda>v0.
       (let bits = op_bytes d * 8;
            v = (if v0 AND sign_bit bits \<noteq> 0 then v0 OR NOT (shl 1 (int bits) - 1) else v0) in
        case shift_count c bits of
          None \<Rightarrow> throwS RangeError
        | Some sh \<Rightarrow>
            (let r = take_bit bits (drop_bit sh v) in
             bindS get_flags (\<lambda>f.
             bindS (set_flags (f\<lparr>zf := (r = 0), sf := (r AND sign_bit bits \<noteq> 0)\<rparr>)) (\<lambda>_.
               op_write d r))))))))"

definition exec_call :: "string list \<Rightarrow> int \<Rightarrow> unit exec" where
  "exec_call ops nextRip =
     (\<lambda>s. (let db = sim_bits s div 8 in
       bindS (reg_get ''rsp'') (\<lambda>rsp.
       bindS (mem_write (rsp - int db) nextRip db) (\<lambda>_.
       bindS (reg_get ''rsp'') (\<lambda>rsp1.
       bindS (reg_set ''rsp'' (rsp1 - int db)) (\<lambda>_.
       bindS (resolveTarget ops) jmp))))) s)"

definition exec_ret :: "unit exec" where
  "exec_ret =
     (\<lambda>s. (let db = sim_bits s div 8 in
       bindS (reg_get ''rsp'') (\<lambda>rsp.
       bindS (mem_read rsp db) (\<lambda>ret.
       bindS (reg_set ''rsp'' (rsp + int db)) (\<lambda>_.
         jmp (Some ret))))) s)"

definition exec_default :: "string \<Rightarrow> string list \<Rightarrow> unit exec" where
  "exec_default mnem ops =
     (if startsWith mnem ''j''
      then bindS get_flags (\<lambda>f.
             if check f (drop 1 mnem) then bindS (resolveTarget ops) jmp else returnS ())
      else returnS ())"

text \<open>\<open>_exec\<close>: the \<open>switch\<close> over the mnemonic, in the order of its \<open>case\<close> labels.\<close>

definition exec :: "inst \<Rightarrow> unit exec" where
  "exec i =
     bindS (advance_rip i) (\<lambda>nextRip.
       (let mnem = trim (toLowerCase (mnemonic i)); ops = splitOps (operands i) in
        if mnem \<in> set [''nop'', ''int3'', ''endbr64'', ''endbr32'', ''pause''] then returnS ()
        else if mnem \<in> set [''mov'', ''movq'', ''movl''] then exec_mov ops
        else if mnem = ''movzx'' then exec_movzx ops
        else if mnem \<in> set [''movsx'', ''movsxd''] then exec_movsx ops
        else if mnem = ''push'' then exec_push ops
        else if mnem = ''pop'' then exec_pop ops
        else if mnem = ''add'' then exec_addsub False ops
        else if mnem = ''sub'' then exec_addsub True ops
        else if mnem = ''xor'' then exec_xor ops
        else if mnem = ''and'' then exec_and ops
        else if mnem = ''or'' then exec_or ops
        else if mnem = ''not'' then exec_not ops
        else if mnem = ''neg'' then exec_neg ops
        else if mnem = ''inc'' then exec_inc ops
        else if mnem = ''dec'' then exec_dec ops
        else if mnem = ''cmp'' then exec_cmp ops
        else if mnem = ''test'' then exec_test ops
        else if mnem = ''lea'' then exec_lea ops
        else if mnem \<in> set [''shl'', ''sal''] then exec_shl ops
        else if mnem = ''shr'' then exec_shr ops
        else if mnem = ''sar'' then exec_sar ops
        else if mnem = ''call'' then exec_call ops nextRip
        else if mnem \<in> set [''ret'', ''retn'', ''retq''] then exec_ret
        else if mnem = ''jmp'' then bindS (resolveTarget ops) jmp
        else exec_default mnem ops))"

text \<open>
  What \<open>step\<close> returns: \<open>{ok: true, inst}\<close>, \<open>{error}\<close> for an unmapped \<open>rip\<close> (with
  the message), or \<open>{error, inst}\<close> for an exception caught from \<open>_exec\<close>.
\<close>

datatype step_result = Ok inst | Unmapped string | Thrown js_error inst

definition step :: "sim \<Rightarrow> step_result \<times> sim" where
  "step s =
     (case currentInst s of
        None \<Rightarrow> (Unmapped (''RIP at unmapped address: '' @ ripAddr s), s)
      | Some i \<Rightarrow>
          (case exec i s of
             (Inr u, s') \<Rightarrow> (Ok i, s')
           | (Inl e, s') \<Rightarrow> (Thrown e i, s')))"

section \<open>Debugger run loop (app frontend)\<close>

text \<open>
  The part of the frontend's \<open>state\<close> the run loop uses. \<open>steps\<close> is not a field of the
  source: it counts the calls of \<open>sim.step()\<close>.
\<close>

record dbg =
  dbg_sim :: sim
  simRunning :: bool
  bpAddrs :: "string set"
  steps :: nat

text \<open>
  The \<open>for\<close> loop of \<open>tick\<close> with \<open>n\<close> iterations to go. It returns the state and whether
  \<open>tick\<close> goes on to schedule itself again with \<open>setTimeout\<close>.
\<close>

fun tick_loop :: "nat \<Rightarrow> dbg \<Rightarrow> dbg \<times> bool" where
  "tick_loop 0 st = (st, True)"
| "tick_loop (Suc n) st =
     (let (r, s') = step (dbg_sim st);
          st1 = st\<lparr>dbg_sim := s', steps := steps st + 1\<rparr>
      in case r of
           Ok i \<Rightarrow>
             if ripAddr s' \<in> bpAddrs st1 then (st1\<lparr>simRunning := False\<rparr>, False)
             else tick_loop n st1
         | Unmapped msg \<Rightarrow> (st1\<lparr>simRunning := False\<rparr>, False)
         | Thrown e i \<Rightarrow> (st1\<lparr>simRunning := False\<rparr>, False))"

definition tick :: "dbg \<Rightarrow> dbg \<times> bool" where
  "tick st = (if \<not> simRunning st then (st, False) else tick_loop 100 st)"

text \<open>
  A run session with no action of the user: \<open>dbgRun\<close> calls \<open>tick\<close>, and each scheduled
  \<open>tick\<close> fires in turn. \<open>ticks n\<close> is the state after at most \<open>n\<close> of them.
\<close>

fun ticks :: "nat \<Rightarrow> dbg \<Rightarrow> dbg" where
  "ticks 0 st = st"
| "ticks (Suc n) st = (let (st', again) = tick st in if again then ticks n st' else st')"

definition dbgRun :: "nat \<Rightarrow> dbg \<Rightarrow> dbg" where
  "dbgRun n st = (if simRunning st then st else ticks n (st\<lparr>simRunning := True\<rparr>))"

section \<open>The end-to-end scenario\<close>

text \<open>
  The three instructions of the scenario, with addresses in the canonical form the decoder
  adapter gives them for the bit width (8 or 16 digits).
\<close>

definition scenario_prog :: "nat \<Rightarrow> inst list" where
  "scenario_prog bits =
     (let pad = (if bits = 64 then 16 else 8) in
      [\<lparr>address = ''0x'' @ padStart pad CHR ''0'' ''401000'', bytes = ''b8 05 00 00 00'',
         mnemonic = ''mov'', operands = ''eax,5''\<rparr>,
       \<lparr>address = ''0x'' @ padStart pad CHR ''0'' ''401005'', bytes = ''83 c0 03'',
         mnemonic = ''add'', operands = ''eax,3''\<rparr>,
       \<lparr>address = ''0x'' @ padStart pad CHR ''0'' ''401008'', bytes = ''c3'',
         mnemonic = ''ret'', operands = []\<rparr>])"

text \<open>A freshly reset interpreter with the program loaded and \<open>0xdead\<close> written at \<open>mem[rsp]\<close>.\<close>

definition scenario_start :: "nat \<Rightarrow> sim" where
  "scenario_start bits =
     (let s0 = snd (reset (scenario_prog bits) (X86Sim bits))
      in s0\<lparr>mem := writeLE (mem s0) (get64 (regs s0) ''rsp'') 0xdead (sim_bits s0 div 8)\<rparr>)"

text \<open>The state after \<open>n\<close> calls of \<open>step\<close>.\<close>

fun run_steps :: "nat \<Rightarrow> sim \<Rightarrow> sim" where
  "run_steps 0 s = s"
| "run_steps (Suc n) s = run_steps n (snd (step s))"

text \<open>A program is loaded in a simulator of a bit width.\<close>

definition loaded :: "nat \<Rightarrow> inst list \<Rightarrow> sim \<Rightarrow> bool" where
  "loaded bits prog s =
     (sim_bits s = bits \<and> ilist s = prog
      \<and> imap s = fold (\<lambda>i m. m(toLowerCase (address i) \<mapsto> i)) prog Map.empty)"

section \<open>The implemented instruction subset\<close>

text \<open>
  The \<open>case\<close> labels of the \<open>switch\<close> in \<open>_exec\<close>, and the condition codes that
  \<open>Flags.check\<close> knows: a mnemonic is implemented when it is a label or \<open>j\<close> followed by
  a known code.
\<close>

definition CASE_LABELS :: "string list" where
  "CASE_LABELS =
     [''nop'', ''int3'', ''endbr64'', ''endbr32'', ''pause'', ''mov'', ''movq'', ''movl'',
      ''movzx'', ''movsx'', ''movsxd'', ''push'', ''pop'', ''add'', ''sub'', ''xor'', ''and'',
      ''or'', ''not'', ''neg'', ''inc'', ''dec'', ''cmp'', ''test'', ''lea'', ''shl'', ''sal'',
      ''shr'', ''sar'', ''call'', ''ret'', ''retn'', ''retq'', ''jmp'']"

definition CC_CODES :: "string list" where
  "CC_CODES =
     [''o'', ''no'', ''s'', ''ns'', ''e'', ''z'', ''ne'', ''nz'', ''b'', ''nae'', ''c'', ''nb'',
      ''ae'', ''nc'', ''be'', ''na'', ''a'', ''nbe'', ''l'', ''nge'', ''ge'', ''nl'', ''le'',
      ''ng'', ''g'', ''nle'', ''p'', ''pe'', ''np'', ''po'']"

definition implemented :: "string \<Rightarrow> bool" where
  "implemented m = (m \<in> set CASE_LABELS \<or> m \<in> set (map ((#) CHR ''j'') CC_CODES))"

text \<open>A program of one instruction outside the subset, and a program that jumps to itself.\<close>

definition cpuid_prog :: "inst list" where
  "cpuid_prog =
     [\<lparr>address = ''0x00401000'', bytes = ''0f a2'', mnemonic = ''cpuid'', operands = []\<rparr>]"

definition loop_prog :: "inst list" where
  "loop_prog =
     [\<lparr>address = ''0x00401000'', bytes = ''eb fe'', mnemonic = ''jmp'', operands = ''00401000h''\<rparr>]"

text \<open>The debugger's state when a program has just been loaded: not running, no breakpoint.\<close>

definition dbg_start :: "nat \<Rightarrow> inst list \<Rightarrow> dbg" where
  "dbg_start bits prog =
     \<lparr>dbg_sim = snd (load prog (X86Sim bits)), simRunning = False, bpAddrs = {}, steps = 0\<rparr>"

section \<open>Inputs of the examples\<close>

text \<open>The instruction list of the cross-reference example.\<close>

definition xref_example :: "inst list" where
  "xref_example =
     [\<lparr>address = ''0x00000100'', bytes = [], mnemonic = ''call'', operands = ''401000h''\<rparr>,
      \<lparr>address = ''0x00000105'', bytes = [], mnemonic = ''jne'', operands = ''0x401010''\<rparr>,
      \<lparr>address = ''0x0000010a'', bytes = [], mnemonic = ''jmp'', operands = ''rax''\<rparr>]"

text \<open>The buffer of the byte-signature example.\<close>

definition sig_example :: buffer where
  "sig_example = [0xF3, 0xAA, 0x90, 0xF3, 0xAB]"

text \<open>A stream whose first instruction is a \<open>loop\<close> to its last one.\<close>

definition loop_cfg_example :: "inst list" where
  "loop_cfg_example =
     [\<lparr>address = ''0x00401000'', bytes = ''e2 02'', mnemonic = ''loop'', operands = ''00401004h''\<rparr>,
      \<lparr>address = ''0x00401002'', bytes = ''90'', mnemonic = ''nop'', operands = []\<rparr>,
      \<lparr>address = ''0x00401003'', bytes = ''90'', mnemonic = ''nop'', operands = []\<rparr>,
      \<lparr>address = ''0x00401004'', bytes = ''c3'', mnemonic = ''ret'', operands = []\<rparr>]"

text \<open>
  A PE32+ file of 368 bytes: DOS header with \<open>e_lfanew = 0x40\<close>, PE signature, COFF header
  (AMD64, one section, optional header of 0xF0 bytes, characteristics 2), optional header
  with magic 0x20B, and one section \<open>.text\<close> whose flags are 0x20 (\<open>IMAGE_SCN_CNT_CODE\<close>
  without \<open>IMAGE_SCN_MEM_EXECUTE\<close>).
\<close>

definition pe_code_only :: buffer where
  "pe_code_only =
     [0x4D, 0x5A] @ replicate 58 0 @ [0x40, 0, 0, 0]
     @ [0x50, 0x45, 0, 0]
     @ [0x64, 0x86, 0x01, 0, 0, 0, 0, 0, 0, 0, 0, 0, 0, 0, 0, 0, 0xF0, 0, 0x02, 0]
     @ [0x0B, 0x02] @ replicate 238 0
     @ [0x2E, 0x74, 0x65, 0x78, 0x74, 0, 0, 0, 0x10, 0, 0, 0, 0, 0x10, 0, 0,
        0x10, 0, 0, 0, 0, 0x02, 0, 0, 0, 0, 0, 0, 0, 0, 0, 0, 0, 0, 0, 0, 0x20, 0, 0, 0]"

text \<open>The sections the PE parser produces for a buffer (none when it throws).\<close>

definition pe_sections_of :: "buffer \<Rightarrow> section_record list" where
  "pe_sections_of buf = (case parsePE buf of Inr p \<Rightarrow> p_sections p | Inl e \<Rightarrow> [])"

text \<open>The condition the specification gives for \<open>is_code\<close>, in its words: both bits set.\<close>

definition spec_is_code :: "nat \<Rightarrow> bool" where
  "spec_is_code fl_bits = (fl_bits AND 0x20000020 = 0x20000020)"

text \<open>A file of four bytes that is neither PE nor ELF.\<close>

definition raw_example :: buffer where
  "raw_example = [0x90, 0x90, 0xC3, 0x00]"

section \<open>Properties of the interpreter's memory\<close>

lemma m12: "(0xFFF::int) = mask 12" by (simp add: mask_eq_exp_minus_1)
lemma m8: "(0xFF::int) = mask 8" by (simp add: mask_eq_exp_minus_1)

lemma addr_eqI:
  assumes "a AND NOT 0xFFF = b AND NOT 0xFFF" and "nat (a AND 0xFFF) = nat (b AND 0xFFF)"
  shows "a = (b::int)"
proof (rule bit_eqI)
  fix n
  have "a AND 0xFFF = b AND 0xFFF"
    using assms(2) unfolding m12 by (simp add: eq_nat_nat_iff flip: take_bit_eq_mask)
  then have lo: "bit (a AND mask 12) n = bit (b AND mask 12) n"
    unfolding m12 by simp
  have hi: "bit (a AND NOT (mask 12)) n = bit (b AND NOT (mask 12)) n"
    using assms(1) unfolding m12 by simp
  show "bit a n = bit b n"
    using lo hi by (cases "n < 12") (simp_all add: bit_and_iff bit_not_iff bit_mask_iff)
qed

lemma r8_val: "fst (r8 m a) = uint (peek m a)"
  by (simp add: r8_def Memory_page_def peek_def new_page_def Let_def split: option.splits)

lemma r8_peek: "peek (snd (r8 m a)) b = peek m b"
  by (simp add: r8_def Memory_page_def peek_def new_page_def Let_def split: option.splits)

lemma w8_peek: "peek (w8 m a v) b = (if b = a then word_of_int (v AND 0xFF) else peek m b)"
proof (cases "b = a")
  case True
  then show ?thesis
    by (simp add: w8_def Memory_page_def peek_def Let_def split: option.splits)
next
  case False
  then have "\<not> (b AND NOT 0xFFF = a AND NOT 0xFFF \<and> nat (b AND 0xFFF) = nat (a AND 0xFFF))"
    using addr_eqI by blast
  with False show ?thesis
    by (auto simp add: w8_def Memory_page_def peek_def new_page_def Let_def split: option.splits)
qed

lemma writeLE_peek:
  "peek (writeLE m a v n) b =
     (if a \<le> b \<and> b < a + int n then word_of_int (drop_bit (nat (b - a) * 8) v AND 0xFF)
      else peek m b)"
proof (induction n)
  case 0
  then show ?case by (auto simp add: writeLE_def)
next
  case (Suc n)
  have step: "writeLE m a v (Suc n) = w8 (writeLE m a v n) (a + int n) (drop_bit (n * 8) v AND 0xFF)"
    by (simp add: writeLE_def)
  show ?case
    unfolding step w8_peek Suc.IH by (auto simp: m8)
qed

lemma readLE_step:
  "readLE m a (Suc n) =
     (let (v, m1) = readLE m a n; (b, m2) = r8 m1 (a + int n) in (v OR push_bit (n * 8) b, m2))"
  by (simp add: readLE_def Let_def split: prod.splits)

lemma readLE_peek: "peek (snd (readLE m a n)) b = peek m b"
proof (induction n)
  case 0
  then show ?case by (simp add: readLE_def)
next
  case (Suc n)
  then show ?case
    by (simp add: readLE_step Let_def split: prod.splits) (metis r8_peek snd_conv)
qed

lemma readLE_bit:
  "bit (fst (readLE m a n)) k =
     (k < n * 8 \<and> bit (peek m (a + int (k div 8))) (k mod 8))"
proof (induction n)
  case 0
  then show ?case by (simp add: readLE_def)
next
  case (Suc n)
  obtain v m1 where vm: "readLE m a n = (v, m1)" by (cases "readLE m a n")
  obtain b m2 where bm: "r8 m1 (a + int n) = (b, m2)" by (cases "r8 m1 (a + int n)")
  have b: "b = uint (peek m (a + int n))"
    using r8_val[of m1 "a + int n"] readLE_peek[of m a n "a + int n"] vm bm by simp
  have v: "bit v k = (k < n * 8 \<and> bit (peek m (a + int (k div 8))) (k mod 8))"
    using Suc.IH vm by simp
  have res: "fst (readLE m a (Suc n)) = v OR push_bit (n * 8) b"
    by (simp add: readLE_step vm bm)
  show ?case
  proof (cases "k < n * 8")
    case True
    then show ?thesis
      unfolding res by (simp add: bit_or_iff bit_push_bit_iff v)
  next
    case False
    show ?thesis
    proof (cases "k < Suc n * 8")
      case True
      with False have kd: "k div 8 = n" by simp
      from False have km: "k - n * 8 = k mod 8"
        using kd by (metis add_diff_cancel_left' mult.commute mult_div_mod_eq)
      show ?thesis
        unfolding res using False True
        by (simp add: bit_or_iff bit_push_bit_iff v b kd km bit_uint_iff)
    next
      case F2: False
      have "8 \<le> k - n * 8"
        using F2 by simp
      then have "\<not> bit (peek m (a + int n)) (k - n * 8)"
        using bit_imp_le_length[of "peek m (a + int n)" "k - n * 8"] by auto
      then have "\<not> bit (uint (peek m (a + int n))) (k - n * 8)"
        by (simp only: bit_uint_iff) simp
      then show ?thesis
        unfolding res using False F2
        by (simp add: bit_or_iff bit_push_bit_iff v b)
    qed
  qed
qed

lemma readLE_writeLE: "fst (readLE (writeLE m a v n) a n) = take_bit (n * 8) v"
proof (rule bit_eqI)
  fix k
  show "bit (fst (readLE (writeLE m a v n) a n)) k = bit (take_bit (n * 8) v) k"
  proof (cases "k < n * 8")
    case True
    then have "k div 8 < n" by simp
    then have dm: "k div 8 * 8 + k mod 8 = k" by simp
    show ?thesis using True \<open>k div 8 < n\<close>
      by (simp add: readLE_bit writeLE_peek bit_take_bit_iff m8 bit_word_of_int_iff
          bit_and_iff bit_mask_iff bit_drop_bit_eq dm)
  next
    case False
    then show ?thesis by (simp add: readLE_bit bit_take_bit_iff)
  qed
qed

lemma readLE_fresh: "fst (readLE Memory_new a n) = 0"
  by (rule bit_eqI) (simp add: readLE_bit peek_def Memory_new_def)

lemma r8_untouched:
  "b < a \<or> a + int n \<le> b \<Longrightarrow> fst (r8 (writeLE Memory_new a v n) b) = 0"
proof -
  assume out: "b < a \<or> a + int n \<le> b"
  have "peek (writeLE Memory_new a v n) b = peek Memory_new b"
    using out by (auto simp add: writeLE_peek)
  also have "\<dots> = 0"
    by (simp add: peek_def Memory_new_def)
  finally show ?thesis
    by (simp add: r8_val)
qed

section \<open>Properties of the register file\<close>

lemma mask_push: "push_bit w (1::int) - 1 = mask w"
  by (simp add: mask_eq_exp_minus_1)

lemma m32: "(0xFFFFFFFF::int) = mask 32" by (simp add: mask_eq_exp_minus_1)

lemma reg_rows_shift:
  "(k, p, w, sh) \<in> set reg_rows \<Longrightarrow> (sh = 0 \<or> (sh = 8 \<and> w = 8)) \<and> w \<in> {8, 16, 32, 64}"
  unfolding reg_rows_def R64_def R32_def R16_def R8L_def R8H_def
  by (simp add: upt_rec) blast

lemma reg_lookup_shift:
  assumes "reg_lookup k = Some (Slot p w sh)"
  shows "(sh = 0 \<or> (sh = 8 \<and> w = 8)) \<and> w \<in> {8, 16, 32, 64}"
proof -
  from assms have "map_of reg_rows k = Some (p, w, sh)"
    by (auto simp add: reg_lookup_def split: option.splits if_splits)
  then have "(k, p, w, sh) \<in> set reg_rows"
    by (rule map_of_SomeD)
  then show ?thesis by (rule reg_rows_shift)
qed

lemma slice_bits:
  "bit ((a AND NOT (push_bit sh (mask w))) OR push_bit sh (v AND mask w)) n =
     (if sh \<le> n \<and> n < sh + w then bit v (n - sh) else bit (a::int) n)"
  by (auto simp add: bit_or_iff bit_and_iff bit_not_iff bit_push_bit_iff bit_mask_iff)

text \<open>What the tables hold: each list of names against its parents, width and shift.\<close>

lemma register_tables:
  "map reg_lookup R64 = map (\<lambda>p. Some (Slot p 64 0)) R64"
  "map reg_lookup R32 = map (\<lambda>p. Some (Slot p 32 0)) R64"
  "map reg_lookup R16 = map (\<lambda>p. Some (Slot p 16 0)) R64"
  "map reg_lookup R8L = map (\<lambda>p. Some (Slot p 8 0)) (take 16 R64)"
  "map reg_lookup R8H = map (\<lambda>p. Some (Slot p 8 8)) [''rax'', ''rbx'', ''rcx'', ''rdx'']"
  by (simp_all add: reg_lookup_def reg_rows_def R64_def R32_def R16_def R8L_def R8H_def upt_rec)

text \<open>
  C1. A register write through \<open>Registers.set\<close>, for every key of the tables, every
  prior register file and every written value: the write succeeds and changes only the
  parent slot; a 32-bit key leaves the parent equal to the low 32 bits of the value (its
  upper 32 bits are 0); a 16-bit or 8-bit key (low or high) replaces exactly the bits
  \<open>shift..<shift + width\<close> of the parent by the low bits of the value and leaves every
  other bit of the parent as it was.
\<close>

theorem register_write_widths:
  assumes "reg_lookup (toLowerCase name) = Some (Slot p w sh)"
  shows "\<exists>x. Registers_set r name v = Inr (r(p := x)) \<and>
           (w = 32 \<longrightarrow> x = take_bit 32 v) \<and>
           (w = 16 \<or> w = 8 \<longrightarrow>
              (\<forall>n. bit x n = (if sh \<le> n \<and> n < sh + w then bit v (n - sh) else bit (r p) n)))"
proof -
  define y where "y = (r p AND NOT (push_bit sh (push_bit w 1 - 1))) OR push_bit sh (v AND (push_bit w 1 - 1))"
  define x where "x = (if w = 32 then y AND 0xFFFFFFFF else y)"
  have set: "Registers_set r name v = Inr (r(p := x))"
    using assms by (simp add: Registers_set_def Let_def x_def y_def del: push_bit_of_1)
  have y: "bit y n = (if sh \<le> n \<and> n < sh + w then bit v (n - sh) else bit (r p) n)" for n
    unfolding y_def mask_push by (rule slice_bits)
  have x32: "x = take_bit 32 v" if "w = 32"
  proof -
    from reg_lookup_shift[OF assms] that have sh: "sh = 0" by auto
    have "y AND mask 32 = take_bit 32 v"
      by (rule bit_eqI) (auto simp add: bit_and_iff bit_mask_iff bit_take_bit_iff y that sh)
    then show ?thesis
      using that by (simp add: x_def m32)
  qed
  have xs: "bit x n = (if sh \<le> n \<and> n < sh + w then bit v (n - sh) else bit (r p) n)"
    if "w = 16 \<or> w = 8" for n
    using that y[of n] by (auto simp add: x_def)
  from set x32 xs show ?thesis by blast
qed

theorem register_write_widths_witness:
  "reg_lookup (toLowerCase ''eax'') = Some (Slot ''rax'' 32 0) \<and>
   reg_lookup (toLowerCase ''ah'') = Some (Slot ''rax'' 8 8) \<and>
   (\<exists>x. Registers_set Registers_new ''eax'' 0x1FFFFFFF5 = Inr (Registers_new(''rax'' := x)) \<and>
        x = 0xFFFFFFF5) \<and>
   (\<exists>x. Registers_set (\<lambda>_. 0x1122334455667788) ''ah'' 0x1AB
          = Inr ((\<lambda>_. 0x1122334455667788)(''rax'' := x)) \<and>
        bit x 8 \<and> bit x 63 = bit (0x1122334455667788 :: int) 63)"
proof -
  have h1: "reg_lookup (toLowerCase ''eax'') = Some (Slot ''rax'' 32 0)"
    by code_simp
  have h2: "reg_lookup (toLowerCase ''ah'') = Some (Slot ''rax'' 8 8)"
    by code_simp
  have v: "take_bit 32 (0x1FFFFFFF5 :: int) = 0xFFFFFFF5"
    by (simp add: take_bit_eq_mod)
  have "\<exists>x. Registers_set Registers_new ''eax'' 0x1FFFFFFF5 = Inr (Registers_new(''rax'' := x)) \<and>
        x = 0xFFFFFFF5"
    using register_write_widths [OF h1, of Registers_new "0x1FFFFFFF5"] v by auto
  moreover have "\<exists>x. Registers_set (\<lambda>_. 0x1122334455667788) ''ah'' 0x1AB
          = Inr ((\<lambda>_. 0x1122334455667788)(''rax'' := x)) \<and>
        bit x 8 \<and> bit x 63 = bit (0x1122334455667788 :: int) 63"
  proof -
    from register_write_widths [OF h2, of "\<lambda>_. 0x1122334455667788" "0x1AB"]
    obtain x where x: "Registers_set (\<lambda>_. 0x1122334455667788) ''ah'' 0x1AB
          = Inr ((\<lambda>_. 0x1122334455667788)(''rax'' := x))"
      and b: "\<And>n. bit x n = (if 8 \<le> n \<and> n < 8 + 8 then bit (0x1AB :: int) (n - 8)
                 else bit (0x1122334455667788 :: int) n)"
      by auto
    have "bit x 8" using b[of 8] by simp
    moreover have "bit x 63 = bit (0x1122334455667788 :: int) 63" using b[of 63] by simp
    ultimately show ?thesis using x by blast
  qed
  ultimately show ?thesis using h1 h2 by blast
qed

section \<open>Memory round trip\<close>

text \<open>
  C10. Interpreter memory is a little-endian read-after-write round trip: for every
  memory, every address \<open>a\<close> (any BigInt, so every 64-bit address), every byte count
  \<open>n\<close> (so 1, 2, 4 and 8) and every value \<open>v\<close>, \<open>readLE(a, n)\<close> after
  \<open>writeLE(a, v, n)\<close> returns \<open>v mod 2^(8n)\<close>; nothing in the statement depends on
  where \<open>a\<close> lies in its page, so accesses spanning a page boundary are included. Pages
  are zero-initialised: a read of a new memory returns 0, and after one \<open>writeLE\<close>
  into a new memory every byte outside the written range reads 0.
\<close>

theorem memory_roundtrip:
  "fst (readLE (writeLE m a v n) a n) = v mod 2 ^ (8 * n) \<and>
   fst (readLE Memory_new a n) = 0 \<and>
   fst (r8 (writeLE Memory_new a v n) b)
     = (if a \<le> b \<and> b < a + int n then drop_bit (nat (b - a) * 8) v mod 2 ^ 8 else 0)"
proof -
  have "fst (readLE (writeLE m a v n) a n) = v mod 2 ^ (8 * n)"
    by (simp add: readLE_writeLE take_bit_eq_mod mult.commute)
  moreover have "fst (readLE Memory_new a n) = 0"
    by (rule readLE_fresh)
  moreover have "fst (r8 (writeLE Memory_new a v n) b)
     = (if a \<le> b \<and> b < a + int n then drop_bit (nat (b - a) * 8) v mod 2 ^ 8 else 0)"
  proof (cases "a \<le> b \<and> b < a + int n")
    case True
    then show ?thesis
      by (simp add: r8_val writeLE_peek m8 uint_word_of_int_eq flip: take_bit_eq_mask)
        (simp add: take_bit_eq_mod)
  next
    case False
    then have "b < a \<or> a + int n \<le> b" by auto
    then have "fst (r8 (writeLE Memory_new a v n) b) = 0" by (rule r8_untouched)
    with False show ?thesis by auto
  qed
  ultimately show ?thesis by blast
qed

section \<open>Evaluation lemmas\<close>

lemma replicate_numeral: "replicate (numeral k) x = x # replicate (pred_numeral k) x"
  by (simp add: numeral_eq_Suc)

lemmas str_defs = toLowerCase_def lower_char_def trim_def is_space_def startsWith_def endsWith_def
  padStart_def toString16.simps digit_val_def is_hex_def is_hex_lower_def is_digit_def
  digits_value_def replicate_numeral

lemmas monad_defs = returnS_def throwS_def bindS_def liftE_def reg_get_def reg_set_def mem_read_def
  mem_write_def get_flags_def set_flags_def

lemmas table_defs = reg_lookup_def reg_rows_def R64_def R32_def R16_def R8L_def R8H_def upt_rec

lemma lk_rip: "reg_lookup ''rip'' = Some (Slot ''rip'' 64 0)" by (simp add: table_defs)
lemma lk_rsp: "reg_lookup ''rsp'' = Some (Slot ''rsp'' 64 0)" by (simp add: table_defs)
lemma lk_eax: "reg_lookup ''eax'' = Some (Slot ''rax'' 32 0)" by (simp add: table_defs)
lemma lk_5: "reg_lookup ''5'' = None" by (simp add: table_defs)
lemma lk_3: "reg_lookup ''3'' = None" by (simp add: table_defs)
lemmas lks = lk_rip lk_rsp lk_eax lk_5 lk_3

lemma low_rip: "toLowerCase ''rip'' = ''rip''" by (simp add: str_defs)
lemma low_rsp: "toLowerCase ''rsp'' = ''rsp''" by (simp add: str_defs)
lemma low_eax: "toLowerCase ''eax'' = ''eax''" by (simp add: str_defs)
lemmas lows = low_rip low_rsp low_eax

lemma slice32: "((x AND NOT (mask 32)) OR (v AND mask 32)) AND 0xFFFFFFFF = take_bit 32 (v::int)"
proof -
  have m: "(0xFFFFFFFF :: int) = mask 32"
    by (simp add: mask_eq_exp_minus_1)
  show ?thesis unfolding m
    by (rule bit_eqI) (auto simp add: bit_and_iff bit_or_iff bit_not_iff bit_mask_iff bit_take_bit_iff)
qed

lemma get_rip: "Registers_get r ''rip'' = Inr (take_bit 64 (r ''rip''))"
  by (simp add: Registers_get_def lows lks mask_push take_bit_eq_mask del: push_bit_of_1)
lemma get_rsp: "Registers_get r ''rsp'' = Inr (take_bit 64 (r ''rsp''))"
  by (simp add: Registers_get_def lows lks mask_push take_bit_eq_mask del: push_bit_of_1)
lemma get_eax: "Registers_get r ''eax'' = Inr (take_bit 32 (r ''rax''))"
  by (simp add: Registers_get_def lows lks mask_push take_bit_eq_mask del: push_bit_of_1)
lemma set_rip:
  "Registers_set r ''rip'' v = Inr (r(''rip'' := (r ''rip'' AND NOT (mask 64)) OR take_bit 64 v))"
  by (simp add: Registers_set_def lows lks mask_push take_bit_eq_mask Let_def del: push_bit_of_1)
lemma set_rsp:
  "Registers_set r ''rsp'' v = Inr (r(''rsp'' := (r ''rsp'' AND NOT (mask 64)) OR take_bit 64 v))"
  by (simp add: Registers_set_def lows lks mask_push take_bit_eq_mask Let_def del: push_bit_of_1)
lemma set_eax: "Registers_set r ''eax'' v = Inr (r(''rax'' := take_bit 32 v))"
  by (simp add: Registers_set_def lows lks mask_push slice32 del: push_bit_of_1)
lemmas regops = get_rip get_rsp get_eax set_rip set_rsp set_eax

lemma so1: "splitOps ''eax,5'' = [''eax'', ''5'']" by (simp add: splitOps_def splitOps_step_def str_defs)
lemma so2: "splitOps ''eax,3'' = [''eax'', ''3'']" by (simp add: splitOps_def splitOps_step_def str_defs)
lemma so3: "splitOps [] = []" by (simp add: splitOps_def splitOps_step_def str_defs)

lemma po_eax: "parseOp ''eax'' r db = Inr (OpReg ''eax'' 4)"
  by (simp add: parseOp_def strip_size_def bracketed_def str_defs lks)
lemma po_5: "parseOp ''5'' r db = Inr (OpImm db 5)"
  by (simp add: parseOp_def strip_size_def bracketed_def str_defs lks parseImm_def match_imm_h_def
      match_imm_0x_def match_digits_def)
lemma po_3: "parseOp ''3'' r db = Inr (OpImm db 3)"
  by (simp add: parseOp_def strip_size_def bracketed_def str_defs lks parseImm_def match_imm_h_def
      match_imm_0x_def match_digits_def)

lemma mn1: "trim (toLowerCase ''mov'') = ''mov''" by (simp add: str_defs)
lemma mn2: "trim (toLowerCase ''add'') = ''add''" by (simp add: str_defs)
lemma mn3: "trim (toLowerCase ''ret'') = ''ret''" by (simp add: str_defs)

lemmas exec_defs = advance_rip_def inst_after_def op_at_def exec_def exec_mov_def exec_addsub_def
  exec_ret_def jmp_def

section \<open>The end-to-end scenario, step by step\<close>

lemma prog32:
  "scenario_prog 32 =
     [\<lparr>address = ''0x00401000'', bytes = ''b8 05 00 00 00'', mnemonic = ''mov'', operands = ''eax,5''\<rparr>,
      \<lparr>address = ''0x00401005'', bytes = ''83 c0 03'', mnemonic = ''add'', operands = ''eax,3''\<rparr>,
      \<lparr>address = ''0x00401008'', bytes = ''c3'', mnemonic = ''ret'', operands = []\<rparr>]"
  by (simp add: scenario_prog_def padStart_def replicate_numeral)

lemma prog64:
  "scenario_prog 64 =
     [\<lparr>address = ''0x0000000000401000'', bytes = ''b8 05 00 00 00'', mnemonic = ''mov'', operands = ''eax,5''\<rparr>,
      \<lparr>address = ''0x0000000000401005'', bytes = ''83 c0 03'', mnemonic = ''add'', operands = ''eax,3''\<rparr>,
      \<lparr>address = ''0x0000000000401008'', bytes = ''c3'', mnemonic = ''ret'', operands = []\<rparr>]"
  by (simp add: scenario_prog_def padStart_def replicate_numeral)

lemma pi32: "parseInt16 ''0x00401000'' = Some 0x401000" "parseInt16 ''0x00401005'' = Some 0x401005"
  "parseInt16 ''0x00401008'' = Some 0x401008"
  by (simp_all add: parseInt16_def str_defs fl_def)

lemma pi64: "parseInt16 ''0x0000000000401000'' = Some 0x401000"
  "parseInt16 ''0x0000000000401005'' = Some 0x401005"
  "parseInt16 ''0x0000000000401008'' = Some 0x401008"
  by (simp_all add: parseInt16_def str_defs fl_def)

lemma imap_scenario:
  assumes "bits = 32 \<or> bits = 64"
  shows "fold (\<lambda>i m. m(toLowerCase (address i) \<mapsto> i)) (scenario_prog bits) Map.empty
     = [address (scenario_prog bits ! 0) \<mapsto> scenario_prog bits ! 0,
        address (scenario_prog bits ! 1) \<mapsto> scenario_prog bits ! 1,
        address (scenario_prog bits ! 2) \<mapsto> scenario_prog bits ! 2]"
  using assms by (elim disjE) (simp_all add: prog32 prog64 str_defs)

lemma start_scenario:
  assumes "bits = 32 \<or> bits = 64"
  shows "loaded bits (scenario_prog bits) (scenario_start bits)"
    and "regs (scenario_start bits) ''rip'' = 0x401000"
    and "regs (scenario_start bits) ''rsp'' = 0x7fff0000"
    and "flags (scenario_start bits) = Flags_new"
    and "fst (readLE (mem (scenario_start bits)) 0x7fff0000 (bits div 8)) = 0xdead"
  using assms
  by (elim disjE; simp add: loaded_def scenario_start_def reset_def load_def monad_defs X86Sim_def
      prog32 prog64 pi32 pi64 regops Registers_new_def get64_def readLE_writeLE take_bit_eq_mod
      mask_eq_exp_minus_1)+

lemma step_mov:
  assumes b: "bits = 32 \<or> bits = 64" and l: "loaded bits (scenario_prog bits) s"
    and rip: "regs s ''rip'' = 0x401000"
  shows "step s = (Ok (scenario_prog bits ! 0), s\<lparr>regs := (regs s)(''rip'' := 0x401005, ''rax'' := 5)\<rparr>)"
proof -
  from l have l': "sim_bits s = bits" "ilist s = scenario_prog bits"
    "imap s = [address (scenario_prog bits ! 0) \<mapsto> scenario_prog bits ! 0,
        address (scenario_prog bits ! 1) \<mapsto> scenario_prog bits ! 1,
        address (scenario_prog bits ! 2) \<mapsto> scenario_prog bits ! 2]"
    by (simp_all add: loaded_def imap_scenario[OF b])
  have c: "currentInst s = Some (scenario_prog bits ! 0)"
    using b by (elim disjE)
      (simp_all add: currentInst_def ripAddr_def l' rip get64_def regops str_defs take_bit_eq_mod
        prog32 prog64)
  have e: "exec (scenario_prog bits ! 0) s
             = (Inr (), s\<lparr>regs := (regs s)(''rip'' := 0x401005, ''rax'' := 5)\<rparr>)"
    using b by (elim disjE)
      (simp_all add: exec_defs l' rip monad_defs prog32 prog64 regops pi32 pi64 mn1 so1 po_eax po_5
        take_bit_eq_mod mask_eq_exp_minus_1)
  show ?thesis
    using c e by (simp add: step_def)
qed

lemma step_add:
  assumes b: "bits = 32 \<or> bits = 64" and l: "loaded bits (scenario_prog bits) s"
    and rip: "regs s ''rip'' = 0x401005" and rax: "regs s ''rax'' = 5"
  shows "step s = (Ok (scenario_prog bits ! 1),
           s\<lparr>flags := (flags s)\<lparr>zf := False, sf := False, cf := False, ovf := False, pf := False\<rparr>,
             regs := (regs s)(''rip'' := 0x401008, ''rax'' := 8)\<rparr>)"
proof -
  from l have l': "sim_bits s = bits" "ilist s = scenario_prog bits"
    "imap s = [address (scenario_prog bits ! 0) \<mapsto> scenario_prog bits ! 0,
        address (scenario_prog bits ! 1) \<mapsto> scenario_prog bits ! 1,
        address (scenario_prog bits ! 2) \<mapsto> scenario_prog bits ! 2]"
    by (simp_all add: loaded_def imap_scenario[OF b])
  have c: "currentInst s = Some (scenario_prog bits ! 1)"
    using b by (elim disjE)
      (simp_all add: currentInst_def ripAddr_def l' rip get64_def regops str_defs take_bit_eq_mod
        prog32 prog64)
  have e: "exec (scenario_prog bits ! 1) s
     = (Inr (), s\<lparr>flags := (flags s)\<lparr>zf := False, sf := False, cf := False, ovf := False, pf := False\<rparr>,
             regs := (regs s)(''rip'' := 0x401008, ''rax'' := 8)\<rparr>)"
    using b by (elim disjE)
     (simp_all add: exec_defs l' rip rax monad_defs prog32 prog64 regops pi32 pi64 mn2 so2 po_eax po_3
        take_bit_eq_mod mask_eq_exp_minus_1 setArith_def shl_def parity_def)
  show ?thesis
    using c e by (simp add: step_def)
qed

lemma step_ret:
  assumes b: "bits = 32 \<or> bits = 64" and l: "loaded bits (scenario_prog bits) s"
    and rip: "regs s ''rip'' = 0x401008" and rsp: "regs s ''rsp'' = 0x7fff0000"
    and m: "fst (readLE (mem s) 0x7fff0000 (bits div 8)) = 0xdead"
  shows "step s = (Ok (scenario_prog bits ! 2),
           s\<lparr>mem := snd (readLE (mem s) 0x7fff0000 (bits div 8)),
             regs := (regs s)(''rsp'' := 0x7fff0000 + int (bits div 8), ''rip'' := 0xdead)\<rparr>)"
proof -
  from l have l': "sim_bits s = bits" "ilist s = scenario_prog bits"
    "imap s = [address (scenario_prog bits ! 0) \<mapsto> scenario_prog bits ! 0,
        address (scenario_prog bits ! 1) \<mapsto> scenario_prog bits ! 1,
        address (scenario_prog bits ! 2) \<mapsto> scenario_prog bits ! 2]"
    by (simp_all add: loaded_def imap_scenario[OF b])
  have c: "currentInst s = Some (scenario_prog bits ! 2)"
    using b by (elim disjE)
      (simp_all add: currentInst_def ripAddr_def l' rip get64_def regops str_defs take_bit_eq_mod
        prog32 prog64)
  have e: "exec (scenario_prog bits ! 2) s
     = (Inr (), s\<lparr>mem := snd (readLE (mem s) 0x7fff0000 (bits div 8)),
             regs := (regs s)(''rsp'' := 0x7fff0000 + int (bits div 8), ''rip'' := 0xdead)\<rparr>)"
    using b m by (elim disjE)
     (simp_all add: exec_defs l' rip rsp monad_defs prog32 prog64 regops pi32 pi64 mn3 so3
        take_bit_eq_mod mask_eq_exp_minus_1 case_prod_beta)
  show ?thesis
    using c e by (simp add: step_def)
qed

text \<open>
  C2. The stream mov eax,5 at 0x401000; add eax,3 at 0x401005; ret at 0x401008 (addresses
  in canonical form), loaded into a freshly reset interpreter of 32 or of 64 bits with
  0xdead written at \<open>mem[rsp]\<close>: each of three calls of \<open>step\<close> returns ok with
  its instruction; after them eax = 8, rip = 0xdead and rsp is its initial value plus one
  word (bits/8 bytes); the flags after the add are zf = sf = cf = of = pf = 0 (and af = 0).
\<close>

theorem three_step_scenario:
  "list_all (\<lambda>bits.
      fst (step (run_steps 0 (scenario_start bits))) = Ok (scenario_prog bits ! 0) \<and>
      fst (step (run_steps 1 (scenario_start bits))) = Ok (scenario_prog bits ! 1) \<and>
      fst (step (run_steps 2 (scenario_start bits))) = Ok (scenario_prog bits ! 2) \<and>
      Registers_get (regs (run_steps 3 (scenario_start bits))) ''eax'' = Inr 8 \<and>
      Registers_get (regs (run_steps 3 (scenario_start bits))) ''rip'' = Inr 0xdead \<and>
      Registers_get (regs (run_steps 3 (scenario_start bits))) ''rsp''
        = Inr (get64 (regs (scenario_start bits)) ''rsp'' + int (bits div 8)) \<and>
      flags (run_steps 2 (scenario_start bits))
        = \<lparr>cf = False, zf = False, sf = False, ovf = False, pf = False, af = False\<rparr>) [32, 64]"
proof -
  have "fst (step (run_steps 0 (scenario_start bits))) = Ok (scenario_prog bits ! 0) \<and>
      fst (step (run_steps 1 (scenario_start bits))) = Ok (scenario_prog bits ! 1) \<and>
      fst (step (run_steps 2 (scenario_start bits))) = Ok (scenario_prog bits ! 2) \<and>
      Registers_get (regs (run_steps 3 (scenario_start bits))) ''eax'' = Inr 8 \<and>
      Registers_get (regs (run_steps 3 (scenario_start bits))) ''rip'' = Inr 0xdead \<and>
      Registers_get (regs (run_steps 3 (scenario_start bits))) ''rsp''
        = Inr (get64 (regs (scenario_start bits)) ''rsp'' + int (bits div 8)) \<and>
      flags (run_steps 2 (scenario_start bits))
        = \<lparr>cf = False, zf = False, sf = False, ovf = False, pf = False, af = False\<rparr>"
    if b: "bits = 32 \<or> bits = 64" for bits
  proof -
    define s0 where "s0 = scenario_start bits"
    define s1 where "s1 = s0\<lparr>regs := (regs s0)(''rip'' := 0x401005, ''rax'' := 5)\<rparr>"
    define s2 where "s2 = s1\<lparr>flags := (flags s1)\<lparr>zf := False, sf := False, cf := False, ovf := False, pf := False\<rparr>,
             regs := (regs s1)(''rip'' := 0x401008, ''rax'' := 8)\<rparr>"
    define s3 where "s3 = s2\<lparr>mem := snd (readLE (mem s2) 0x7fff0000 (bits div 8)),
             regs := (regs s2)(''rsp'' := 0x7fff0000 + int (bits div 8), ''rip'' := 0xdead)\<rparr>"
    note st = start_scenario[OF b, folded s0_def]
    have l1: "loaded bits (scenario_prog bits) s1"
      using st(1) by (simp add: loaded_def s1_def)
    have l2: "loaded bits (scenario_prog bits) s2"
      using l1 by (simp add: loaded_def s2_def)
    have t0: "step s0 = (Ok (scenario_prog bits ! 0), s1)"
      unfolding s1_def by (rule step_mov[OF b st(1) st(2)])
    have t1: "step s1 = (Ok (scenario_prog bits ! 1), s2)"
      unfolding s2_def by (rule step_add[OF b l1]) (simp_all add: s1_def)
    have t2: "step s2 = (Ok (scenario_prog bits ! 2), s3)"
      unfolding s3_def by (rule step_ret[OF b l2]) (simp_all add: s2_def s1_def st)
    have r1: "run_steps 1 s0 = s1" by (simp add: t0)
    have r2: "run_steps 2 s0 = s2" by (simp add: numeral_2_eq_2 t0 t1)
    have r3: "run_steps 3 s0 = s3" by (simp add: numeral_3_eq_3 t0 t1 t2)
    have rsp0: "get64 (regs s0) ''rsp'' = 0x7fff0000"
      by (simp add: get64_def regops st take_bit_eq_mod)
    have f2: "flags s2 = \<lparr>cf = False, zf = False, sf = False, ovf = False, pf = False, af = False\<rparr>"
      by (simp add: s2_def s1_def st Flags_new_def)
    have g: "Registers_get (regs s3) ''eax'' = Inr 8" "Registers_get (regs s3) ''rip'' = Inr 0xdead"
      "Registers_get (regs s3) ''rsp'' = Inr (0x7fff0000 + int (bits div 8))"
      using b by (auto simp add: s3_def s2_def regops take_bit_eq_mod)
    show ?thesis
      unfolding s0_def[symmetric] by (simp add: t0 t1 t2 r1 r2 r3 rsp0 f2 g)
  qed
  then show ?thesis by simp
qed

section \<open>Instructions outside the implemented subset\<close>

lemma check_unknown: "c \<notin> set CC_CODES \<Longrightarrow> \<not> check f c"
  by (simp add: check_def CC_CODES_def)

lemma check_code: "check f c \<Longrightarrow> c \<in> set CC_CODES"
  using check_unknown by blast

lemma exec_default_unimplemented:
  assumes "\<not> implemented mnem"
  shows "exec_default mnem ops s = (Inr (), s)"
proof (cases "startsWith mnem ''j''")
  case False
  then show ?thesis by (simp add: exec_default_def returnS_def)
next
  case True
  then have m: "mnem = CHR ''j'' # drop 1 mnem"
    by (cases mnem) (simp_all add: startsWith_def)
  have "\<not> check (flags s) (drop 1 mnem)"
  proof
    assume "check (flags s) (drop 1 mnem)"
    then have "drop 1 mnem \<in> set CC_CODES" by (rule check_code)
    then have "CHR ''j'' # drop 1 mnem \<in> set (map ((#) CHR ''j'') CC_CODES)" by simp
    with m assms show False by (simp add: implemented_def)
  qed
  then show ?thesis
    using True by (simp add: exec_default_def bindS_def get_flags_def returnS_def)
qed

lemma dispatch_unimplemented:
  assumes "\<not> implemented (trim (toLowerCase (mnemonic i)))"
  shows "exec i = bindS (advance_rip i) (\<lambda>nextRip.
           exec_default (trim (toLowerCase (mnemonic i))) (splitOps (operands i)))"
  using assms by (simp add: exec_def implemented_def CASE_LABELS_def Let_def)

lemma advance_rip_result:
  "advance_rip i s =
     (case inst_after (ilist s) (address i) of
        None \<Rightarrow> (case Registers_get (regs s) ''rip'' of
                   Inr a \<Rightarrow> (case Registers_set (regs s) ''rip'' a of
                               Inr r \<Rightarrow> (Inr a, s\<lparr>regs := r\<rparr>) | Inl e \<Rightarrow> (Inl e, s))
                 | Inl e \<Rightarrow> (Inl e, s))
      | Some nx \<Rightarrow>
          (case parseInt16 (address nx) of
             None \<Rightarrow> (Inl RangeError, s)
           | Some a \<Rightarrow> (case Registers_set (regs s) ''rip'' a of
                               Inr r \<Rightarrow> (Inr a, s\<lparr>regs := r\<rparr>) | Inl e \<Rightarrow> (Inl e, s))))"
  by (simp add: advance_rip_def bindS_def reg_get_def reg_set_def returnS_def throwS_def
      split: option.splits sum.splits)

lemma step_unimplemented_aux:
  assumes c: "currentInst s = Some i"
    and u: "\<not> implemented (trim (toLowerCase (mnemonic i)))"
  shows "fst (step s) =
           (case inst_after (ilist s) (address i) of
              None \<Rightarrow> Ok i
            | Some nx \<Rightarrow> (case parseInt16 (address nx) of None \<Rightarrow> Thrown RangeError i | Some a \<Rightarrow> Ok i))
         \<and> mem (snd (step s)) = mem s \<and> flags (snd (step s)) = flags s
         \<and> (\<forall>r. r \<noteq> ''rip'' \<longrightarrow> regs (snd (step s)) r = regs s r)"
  by (simp add: step_def c dispatch_unimplemented[OF u] bindS_def advance_rip_result
      exec_default_unimplemented[OF u] set_rip get_rip
      split: option.splits)

lemma load_cpuid:
  "loaded 32 cpuid_prog (snd (load cpuid_prog (X86Sim 32)))"
  "regs (snd (load cpuid_prog (X86Sim 32))) ''rip'' = 0x401000"
  by (simp_all add: loaded_def load_def monad_defs X86Sim_def cpuid_prog_def pi32 regops
      Registers_new_def take_bit_eq_mod mask_eq_exp_minus_1)

lemma current_cpuid:
  "currentInst (snd (load cpuid_prog (X86Sim 32))) = Some (cpuid_prog ! 0)"
proof -
  from load_cpuid(1) have l': "sim_bits (snd (load cpuid_prog (X86Sim 32))) = 32"
    "imap (snd (load cpuid_prog (X86Sim 32))) = [''0x00401000'' \<mapsto> cpuid_prog ! 0]"
    by (simp_all add: loaded_def cpuid_prog_def str_defs)
  show ?thesis
    by (simp add: currentInst_def ripAddr_def l' load_cpuid(2) get64_def regops str_defs
        take_bit_eq_mod)
qed

lemma cpuid_unimplemented: "\<not> implemented (trim (toLowerCase (mnemonic (cpuid_prog ! 0))))"
  by (simp add: implemented_def CASE_LABELS_def CC_CODES_def cpuid_prog_def str_defs)

lemma cpuid_last: "inst_after (ilist (snd (load cpuid_prog (X86Sim 32)))) (address (cpuid_prog ! 0)) = None"
  using load_cpuid(1) by (simp add: loaded_def inst_after_def cpuid_prog_def)

text \<open>
  The claim of C4 as stated fails: \<open>cpuid\<close> is outside the subset, it is the current
  instruction of the interpreter that has just loaded it, and \<open>step\<close> returns the ok
  result, not an error.
\<close>

theorem unsupported_mnemonic_counterexample:
  "currentInst (snd (load cpuid_prog (X86Sim 32))) = Some (cpuid_prog ! 0) \<and>
   \<not> implemented (trim (toLowerCase (mnemonic (cpuid_prog ! 0)))) \<and>
   fst (step (snd (load cpuid_prog (X86Sim 32)))) = Ok (cpuid_prog ! 0)"
  using step_unimplemented_aux [OF current_cpuid cpuid_unimplemented]
  by (simp add: current_cpuid cpuid_unimplemented cpuid_last)

text \<open>
  C4 (amended). For every loaded instruction whose mnemonic is outside the implemented
  subset, \<open>step\<close> with \<open>rip\<close> at that instruction executes it as a no-op and returns
  the ok result \<open>{ok: true, inst}\<close>: memory, flags and every register but \<open>rip\<close> are
  unchanged. The only error result at such an instruction is \<open>{error, inst}\<close> from the
  advance of \<open>rip\<close>, when the address of the next instruction of the list is not a
  hexadecimal number.
\<close>

theorem step_unimplemented:
  assumes "currentInst s = Some i"
    and "\<not> implemented (trim (toLowerCase (mnemonic i)))"
  shows "fst (step s) =
           (case inst_after (ilist s) (address i) of
              None \<Rightarrow> Ok i
            | Some nx \<Rightarrow> (case parseInt16 (address nx) of None \<Rightarrow> Thrown RangeError i | Some a \<Rightarrow> Ok i))
         \<and> mem (snd (step s)) = mem s \<and> flags (snd (step s)) = flags s
         \<and> (\<forall>r. r \<noteq> ''rip'' \<longrightarrow> regs (snd (step s)) r = regs s r)"
  using assms by (rule step_unimplemented_aux)

theorem step_unimplemented_witness:
  "currentInst (snd (load cpuid_prog (X86Sim 32))) = Some (cpuid_prog ! 0) \<and>
   \<not> implemented (trim (toLowerCase (mnemonic (cpuid_prog ! 0)))) \<and>
   fst (step (snd (load cpuid_prog (X86Sim 32)))) = Ok (cpuid_prog ! 0) \<and>
   mem (snd (step (snd (load cpuid_prog (X86Sim 32))))) = mem (snd (load cpuid_prog (X86Sim 32))) \<and>
   flags (snd (step (snd (load cpuid_prog (X86Sim 32))))) = flags (snd (load cpuid_prog (X86Sim 32)))"
  using step_unimplemented [OF current_cpuid cpuid_unimplemented]
  by (simp add: current_cpuid cpuid_unimplemented cpuid_last)

section \<open>The run loop\<close>

lemma load_loop:
  "loaded 32 loop_prog (snd (load loop_prog (X86Sim 32)))"
  "regs (snd (load loop_prog (X86Sim 32))) ''rip'' = 0x401000"
  by (simp_all add: loaded_def load_def monad_defs X86Sim_def loop_prog_def pi32 regops
      Registers_new_def take_bit_eq_mod mask_eq_exp_minus_1)

lemma step_loop:
  assumes l: "loaded 32 loop_prog s" and rip: "regs s ''rip'' = 0x401000"
  shows "step s = (Ok (loop_prog ! 0), s)"
proof -
  from l have l': "sim_bits s = 32" "ilist s = loop_prog" "imap s = [''0x00401000'' \<mapsto> loop_prog ! 0]"
    by (simp_all add: loaded_def loop_prog_def str_defs)
  have c: "currentInst s = Some (loop_prog ! 0)"
    by (simp add: currentInst_def ripAddr_def l' rip get64_def regops str_defs take_bit_eq_mod)
  have t: "parseImm ''00401000h'' = Some 0x401000"
    by (simp add: parseImm_def match_imm_h_def match_imm_0x_def match_digits_def str_defs)
  have so: "splitOps ''00401000h'' = [''00401000h'']"
    by (simp add: splitOps_def splitOps_step_def str_defs)
  have lk: "reg_lookup ''00401000h'' = None"
    by (simp add: table_defs)
  have mn: "trim (toLowerCase ''jmp'') = ''jmp''" "toLowerCase (trim ''00401000h'') = ''00401000h''"
    by (simp_all add: str_defs)
  have r: "(regs s)(''rip'' := 0x401000) = regs s"
    using rip by (simp add: fun_upd_idem)
  have e: "exec (loop_prog ! 0) s = (Inr (), s)"
    by (simp add: exec_defs resolveTarget_def REG_MAP_def l' rip monad_defs loop_prog_def regops mn so t lk
        take_bit_eq_mod mask_eq_exp_minus_1 r)
  show ?thesis
    using c e by (simp add: step_def)
qed

lemma tick_loop_fixed:
  assumes "step (dbg_sim st) = (Ok i, dbg_sim st)" and "bpAddrs st = {}"
  shows "tick_loop n st = (st\<lparr>steps := steps st + n\<rparr>, True)"
  using assms by (induction n arbitrary: st) simp_all

lemma ticks_fixed:
  assumes "step (dbg_sim st) = (Ok i, dbg_sim st)" and "bpAddrs st = {}" and "simRunning st"
  shows "ticks n st = st\<lparr>steps := steps st + 100 * n\<rparr>"
  using assms by (induction n arbitrary: st) (simp_all add: tick_def tick_loop_fixed)

text \<open>
  C3. The run loop has no cap: on the program that jumps to itself, with no breakpoint and
  no action of the user, the session started by \<open>dbgRun\<close> has executed 50,100 steps
  after 501 ticks and is still running; \<open>_maxSteps\<close> is 50,000 and is never read.
\<close>

theorem run_loop_exceeds_cap:
  "steps (dbgRun 501 (dbg_start 32 loop_prog)) = 50100 \<and>
   simRunning (dbgRun 501 (dbg_start 32 loop_prog)) \<and>
   maxSteps (dbg_sim (dbgRun 501 (dbg_start 32 loop_prog))) = 50000"
proof -
  let ?st = "(dbg_start 32 loop_prog)\<lparr>simRunning := True\<rparr>"
  have s: "step (dbg_sim ?st) = (Ok (loop_prog ! 0), dbg_sim ?st)"
    using step_loop[OF load_loop] by (simp add: dbg_start_def)
  have "ticks 501 ?st = ?st\<lparr>steps := steps ?st + 100 * 501\<rparr>"
    by (rule ticks_fixed[OF s]) (simp_all add: dbg_start_def)
  then show ?thesis
    by (simp add: dbgRun_def dbg_start_def load_def monad_defs X86Sim_def loop_prog_def pi32 regops)
qed

section \<open>Byte signatures\<close>

text \<open>
  C6. On the buffer F3 AA 90 F3 AB with base 0x400000 and 32 bits the scanner returns one
  hit only, \<open>rep stosb\<close> at 0x00400000: the loop stops at \<open>i < limit - 2\<close>, so the match
  \<open>F3 AB\<close> whose last byte is the final byte of the buffer is never compared.
\<close>

theorem byte_signatures_example:
  "matchByteSignatures sig_example 0x400000 32
     = Some [\<lparr>hit_address = ''0x00400000'', hit_name = ''rep stosb'', hit_note = ''byte memset''\<rparr>]"
  by (simp add: matchByteSignatures_def sig_example_def BYTE_SIGS_def scan_sig.simps padStart_def
      toString16.simps fl_def replicate_numeral upt_rec)

section \<open>Cross-references\<close>

lemmas target_defs = parseTarget_def match_hexH_def match_hex0x_def is_hex_def digit_val_def
  digits_value_def toString16.simps padStart_def replicate_numeral startsWith_def

text \<open>
  C7. For the list call 401000h at 0x100, jne 0x401010 at 0x105, jmp rax at 0x10a and 32
  bits, the xref builder returns exactly the two entries of the claim, in this order; the
  operand \<open>rax\<close> has no target, and each key is \<open>0x\<close> followed by the target in
  hexadecimal padded with zeros to 32/4 = 8 digits.
\<close>

theorem xref_example_map:
  "buildXrefs xref_example 32 =
     [(''0x00401000'', [\<lparr>xref_from = ''0x00000100'', xref_type = ''call''\<rparr>]),
      (''0x00401010'', [\<lparr>xref_from = ''0x00000105'', xref_type = ''jcc''\<rparr>])] \<and>
   parseTarget ''rax'' 32 = None \<and>
   map fst (buildXrefs xref_example 32) =
     [''0x'' @ padStart (32 div 4) CHR ''0'' (toString16 0x401000),
      ''0x'' @ padStart (32 div 4) CHR ''0'' (toString16 0x401010)]"
  by (simp add: buildXrefs_def xref_example_def xref_step_def target_defs
      trim_def is_space_def toLowerCase_def lower_char_def CALL_SET_def JMP_SET_def JCC_SET_def
      Let_def)

section \<open>Control-flow graph\<close>

lemmas cfg_defs = buildCFG_def build_blocks_def block_starts_def mark_starts_def
  add_inst_def block_edges_def graph_parseTarget_def JMP_END_def JCC_ALL_def trim_def is_space_def
  toLowerCase_def lower_char_def inst_after_def upt_rec Let_def match_hexH_def match_hex0x_def
  startsWith_def is_hex_def digit_val_def digits_value_def toString16.simps padStart_def
  replicate_numeral

text \<open>
  C8. \<open>loop\<close> is in the Jcc set of the xref builder but not in \<open>JCC_ALL\<close> of the CFG
  builder: for the stream loop 00401004h; nop; nop; ret the CFG builder makes one block of
  all four instructions, so neither the instruction after the \<open>loop\<close> nor its target
  begins a block, while the xref builder records the same \<open>loop\<close> as a jcc reference.
\<close>

theorem cfg_loop_not_split:
  "map block_id (buildCFG loop_cfg_example 32) = [''0x00401000''] \<and>
   map block_insts (buildCFG loop_cfg_example 32) = [loop_cfg_example] \<and>
   ''loop'' \<in> set JCC_SET \<and> ''loop'' \<notin> set JCC_ALL \<and>
   buildXrefs loop_cfg_example 32
     = [(''0x00401004'', [\<lparr>xref_from = ''0x00401000'', xref_type = ''jcc''\<rparr>])]"
  by (simp add: cfg_defs loop_cfg_example_def buildXrefs_def xref_step_def parseTarget_def
      CALL_SET_def JMP_SET_def JCC_SET_def)

section \<open>PE sections\<close>

lemma pe_section_isCode:
  assumes "pe_section buf off = Inr s"
  shows "isCode s = (sec_flags s AND 0x20000020 \<noteq> 0)"
  using assms by (auto simp add: pe_section_def bindE_def Let_def split: sum.splits)

lemma pe_sections_isCode:
  assumes "pe_sections buf base idx = Inr ss" and "s \<in> set ss"
  shows "isCode s = (sec_flags s AND 0x20000020 \<noteq> 0)"
  using assms
proof (induction idx arbitrary: ss)
  case Nil
  then show ?case by simp
next
  case (Cons i idx)
  show ?case
  proof (cases "base + i * 40 + 40 > length buf")
    case True
    with Cons.prems show ?thesis by (simp add: Let_def)
  next
    case False
    with Cons.prems obtain x rest where x: "pe_section buf (base + i * 40) = Inr x"
      and r: "pe_sections buf base idx = Inr rest" and ss: "ss = x # rest"
      by (auto simp add: Let_def bindE_def split: sum.splits)
    from Cons.prems(2) ss consider "s = x" | "s \<in> set rest" by auto
    then show ?thesis
    proof cases
      case 1
      with x show ?thesis by (simp add: pe_section_isCode)
    next
      case 2
      with r show ?thesis by (rule Cons.IH)
    qed
  qed
qed

lemma parsePE_sections:
  assumes "parsePE buf = Inr p"
  shows "\<exists>base n. pe_sections buf base [0..<n] = Inr (p_sections p)"
  using assms
  by (auto simp add: parsePE_def bindE_def Let_def split: if_splits sum.splits) blast+

lemma mask_bits: "bit (0x20000020::nat) n = (n = 5 \<or> n = 29)"
proof -
  have "(0x20000020::nat) = 2 ^ 5 OR 2 ^ 29"
    by simp
  then show ?thesis
    by (simp only: bit_or_iff bit_exp_iff) auto
qed

lemma both_bits: "(f AND 0x20000020 \<noteq> (0::nat)) = (bit f 5 \<or> bit f 29)"
proof -
  have "(f AND 0x20000020 = 0) = (\<forall>n. \<not> bit (f AND 0x20000020) n)"
    by (simp add: bit_eq_iff)
  also have "\<dots> = (\<forall>n. \<not> (bit f n \<and> (n = 5 \<or> n = 29)))"
    by (simp only: bit_and_iff mask_bits)
  also have "\<dots> = (\<not> bit f 5 \<and> \<not> bit f 29)"
    by auto
  finally show ?thesis by auto
qed

lemma parsePE_example:
  "pe_sections_of pe_code_only =
     [\<lparr>sec_name = ''.text'', virtualAddress = 0x1000, virtualSize = 0x10, rawOffset = 0x200,
       rawSize = 0x10, sec_flags = 0x20, flagsStr = ''CODE'', typeStr = None, isCode = True\<rparr>]"
  by (simp add: pe_sections_of_def parsePE_def pe_code_only_def bindE_def readUInt16LE_def
      readUInt32LE_def readBigUInt64LE_def replicate_numeral MACHINE_TYPES_def pe_section_def
      upt_rec parseSectionFlags_def SECTION_FLAGS_def slice_def ascii_string_def
      toString10.simps fl_def char_of_def bit_Suc_0_iff)

text \<open>
  The claim of C5 as stated fails: the parser marks the section of \<open>pe_code_only\<close>,
  whose flags are 0x20, as code, although only one of the two bits is set.
\<close>

theorem pe_is_code_counterexample:
  "map sec_flags (pe_sections_of pe_code_only) = [0x20] \<and>
   map isCode (pe_sections_of pe_code_only) = [True] \<and>
   \<not> spec_is_code 0x20"
  by (simp add: parsePE_example spec_is_code_def)

text \<open>
  C5 (amended). For every section entry the PE parser produces, \<open>is_code\<close> is true if
  and only if \<open>flags & 0x20000020\<close> is not zero, that is, at least one of
  \<open>IMAGE_SCN_CNT_CODE\<close> (0x20, bit 5) and \<open>IMAGE_SCN_MEM_EXECUTE\<close> (0x20000000, bit 29)
  is set; a section with only one of the two bits has \<open>is_code\<close> true.
\<close>

theorem pe_is_code_any_bit:
  assumes "parsePE buf = Inr p" and "s \<in> set (p_sections p)"
  shows "isCode s = (sec_flags s AND 0x20000020 \<noteq> 0) \<and>
         isCode s = (bit (sec_flags s) 5 \<or> bit (sec_flags s) 29)"
proof -
  from parsePE_sections[OF assms(1)] obtain base n
    where "pe_sections buf base [0..<n] = Inr (p_sections p)" by blast
  then have "isCode s = (sec_flags s AND 0x20000020 \<noteq> 0)"
    using assms(2) by (rule pe_sections_isCode)
  then show ?thesis using both_bits[of "sec_flags s"] by simp
qed

theorem pe_is_code_any_bit_witness:
  "(\<exists>p. parsePE pe_code_only = Inr p \<and> hd (pe_sections_of pe_code_only) \<in> set (p_sections p)) \<and>
   isCode (hd (pe_sections_of pe_code_only)) \<and>
   bit (sec_flags (hd (pe_sections_of pe_code_only))) 5 \<and>
   \<not> bit (sec_flags (hd (pe_sections_of pe_code_only))) 29"
proof -
  obtain p where p: "parsePE pe_code_only = Inr p" and s: "p_sections p = pe_sections_of pe_code_only"
    using parsePE_example by (cases "parsePE pe_code_only") (simp_all add: pe_sections_of_def)
  have m: "hd (pe_sections_of pe_code_only) \<in> set (p_sections p)"
    by (simp add: s parsePE_example)
  from pe_is_code_any_bit [OF p m] have "isCode (hd (pe_sections_of pe_code_only))
      = (bit (sec_flags (hd (pe_sections_of pe_code_only))) 5 \<or> bit (sec_flags (hd (pe_sections_of pe_code_only))) 29)"
    by blast
  moreover have "bit (sec_flags (hd (pe_sections_of pe_code_only))) 5"
    "\<not> bit (sec_flags (hd (pe_sections_of pe_code_only))) 29"
    by (simp_all add: parsePE_example bit_iff_odd)
  ultimately show ?thesis using p m by blast
qed

section \<open>The pipeline\<close>

text \<open>The byte-signature scan always returns, so \<open>analyzeFile\<close> always throws or returns.\<close>

lemma scan_sig_returns:
  assumes "sig_bytes sg \<noteq> []"
  shows "\<exists>hits. scan_sig codeBuffer baseVA pad limit sg i results = Some hits"
  using assms
proof (induction codeBuffer baseVA pad limit sg i results rule: scan_sig.induct)
  case (1 codeBuffer baseVA pad limit sg i results)
  show ?case
  proof (cases "i + length (sig_bytes sg) < limit")
    case False
    then show ?thesis by (simp add: scan_sig.simps)
  next
    case True
    show ?thesis
    proof (cases "list_all (\<lambda>j. codeBuffer ! (i + j) = sig_bytes sg ! j) [0..<length (sig_bytes sg)]")
      case m: True
      from "1.prems" have n: "length (sig_bytes sg) \<noteq> 0" by simp
      from "1.IH"(1)[OF True m n "1.prems"] show ?thesis
        using True m n by (subst scan_sig.simps) simp
    next
      case m: False
      from "1.IH"(2)[OF True m "1.prems"] show ?thesis
        using True m by (subst scan_sig.simps) simp
    qed
  qed
qed

lemma matchByteSignatures_returns:
  "\<exists>hits. matchByteSignatures codeBuffer baseVA bits = Some hits"
proof -
  have step: "\<exists>hits. Option.bind (Some r) (scan_sig codeBuffer baseVA pad limit sg 0) = Some hits"
    if "sig_bytes sg \<noteq> []" for r pad limit sg
    using scan_sig_returns[OF that] by simp
  have "\<exists>hits. fold (\<lambda>sg results. Option.bind results (scan_sig codeBuffer baseVA pad limit sg 0))
            sigs (Some r) = Some hits"
    if "\<forall>sg \<in> set sigs. sig_bytes sg \<noteq> []" for sigs r pad limit
    using that
  proof (induction sigs arbitrary: r)
    case Nil
    then show ?case by simp
  next
    case (Cons sg sigs)
    from Cons.prems have "sig_bytes sg \<noteq> []" by simp
    from step[OF this] obtain h where
      "Option.bind (Some r) (scan_sig codeBuffer baseVA pad limit sg 0) = Some h" by blast
    with Cons show ?case by simp
  qed
  moreover have "\<forall>sg \<in> set BYTE_SIGS. sig_bytes sg \<noteq> []"
    by (simp add: BYTE_SIGS_def)
  ultimately show ?thesis
    by (simp add: matchByteSignatures_def Let_def)
qed

lemma build_report_fallback:
  assumes "build_report icedX86 buf nm sz p = Some rep" and "d_fallback (r_disasm rep)"
  shows "a_xrefs (r_analysis rep) = [] \<and> a_funcLabels (r_analysis rep) = []"
  using assms
  by (auto simp add: build_report_def Let_def split: prod.splits if_splits)

lemma raw_example_report:
  "\<exists>rep. analyzeFile None raw_example ''a.bin'' 4 = Some (Inr rep) \<and> d_fallback (r_disasm rep)
     \<and> d_instructions (r_disasm rep) = hexDump raw_example 0"
  by (simp add: analyzeFile_def parse_headers_def detectFormat_def raw_example_def build_report_def
      findCodeSection_def disassemble_def MAX_BYTES_def Let_def)

text \<open>
  C9. Whenever \<open>analyzeFile\<close> returns a report whose \<open>disasm.fallback\<close> is true, the
  report's \<open>analysis.xrefs\<close> and \<open>analysis.funcLabels\<close> are both empty: neither the
  xref builder nor the function detector is run on the hex rows.
\<close>

theorem fallback_skips_analysis:
  assumes "analyzeFile icedX86 buf originalName fileSize = Some (Inr rep)"
    and "d_fallback (r_disasm rep)"
  shows "a_xrefs (r_analysis rep) = [] \<and> a_funcLabels (r_analysis rep) = []"
proof -
  from assms(1) obtain p where "build_report icedX86 buf originalName fileSize p = Some rep"
    by (auto simp add: analyzeFile_def split: sum.splits)
  then show ?thesis using assms(2) by (rule build_report_fallback)
qed

theorem fallback_skips_analysis_witness:
  "\<exists>rep. analyzeFile None raw_example ''a.bin'' 4 = Some (Inr rep) \<and> d_fallback (r_disasm rep)
     \<and> d_instructions (r_disasm rep) = hexDump raw_example 0
     \<and> a_xrefs (r_analysis rep) = [] \<and> a_funcLabels (r_analysis rep) = []"
proof -
  from raw_example_report obtain rep where
    r: "analyzeFile None raw_example ''a.bin'' 4 = Some (Inr rep)" and f: "d_fallback (r_disasm rep)"
    and i: "d_instructions (r_disasm rep) = hexDump raw_example 0"
    by blast
  from fallback_skips_analysis [OF r f] r f i show ?thesis by blast
qed

end
